theory Spec2Isabelle
  imports Main
begin

section \<open>Shared data model\<close>

text \<open>
  Strings are byte strings: ASCII text as it stands, every other character (the emoji of
  the message texts) as its UTF-8 bytes. An awaited call either fulfils with a value or
  rejects with an \<open>Error\<close>, of which the code only ever reads \<open>.message\<close>.
\<close>

type_synonym user_id = int
type_synonym chat_id = int
type_synonym message_id = int

datatype 'a settled = Fulfilled 'a | Rejected string

text \<open>One entry of the catalog, as built by the extraction callback of \<open>tasks.js\<close>.\<close>

record model =
  name :: string
  isBeta :: "string option"
  features :: "string list"

section \<open>\<open>src/automation/tasks.js\<close>\<close>

subsection \<open>Extraction callback (lines 153-174)\<close>

text \<open>
  What the three queries of the callback find in one \<open>li\<close>: the text content of the
  name paragraph and of the beta badge (\<open>None\<close> when \<open>querySelector\<close> returns
  \<open>null\<close>), and the text contents of the feature paragraphs in document order.
\<close>

record list_item =
  nameElement :: "string option"
  betaBadge :: "string option"
  featureElements :: "string list"

text \<open>
  \<open>String.prototype.trim\<close>, for the white space and line terminators of the ASCII
  range (tab, line feed, vertical tab, form feed, carriage return, space). The white
  space of ECMAScript beyond ASCII (no-break space, byte order mark, the Unicode space
  separators, line and paragraph separator) is several bytes long here and is left in
  place.
\<close>

definition is_white_space :: "char \<Rightarrow> bool" where
  "is_white_space c =
     (c = CHR 0x09 \<or> c = CHR 0x0A \<or> c = CHR 0x0B \<or> c = CHR 0x0C \<or> c = CHR 0x0D \<or> c = CHR '' '')"

definition trim :: "string \<Rightarrow> string" where
  "trim s = rev (dropWhile is_white_space (rev (dropWhile is_white_space s)))"

definition extract_item :: "list_item \<Rightarrow> model" where
  "extract_item item =
     (let modelName = (case nameElement item of Some t \<Rightarrow> trim t | None \<Rightarrow> '''');
          beta = (case betaBadge item of Some t \<Rightarrow> Some (trim t) | None \<Rightarrow> None);
          feats = map trim (featureElements item)
      in \<lparr>name = modelName, isBeta = beta, features = feats\<rparr>)"

definition extract_items :: "list_item list \<Rightarrow> model list" where
  "extract_items items = map extract_item items"

subsection \<open>The browser globals and one run of the page\<close>

text \<open>
  \<open>globalBrowser\<close>, \<open>globalContext\<close> and \<open>globalPage\<close>: each is either \<open>null\<close>
  (\<open>False\<close>) or a live handle (\<open>True\<close>).
\<close>

record browser_globals =
  globalBrowser :: bool
  globalContext :: bool
  globalPage :: bool

text \<open>
  The answers of Playwright and of the page to the calls of one run of
  \<open>navigateToDuckAI\<close>, one field per call site in source order. A field is only read
  when the run reaches its call. \<open>eval_items\<close> is the list of elements that
  \<open>page.$$eval\<close> matched with its selector and handed to the callback.
\<close>

record page_run =
  launch :: "unit settled"
  newContext :: "unit settled"
  addInitScript :: "unit settled"
  newPage :: "unit settled"
  url_includes_duck :: bool
  goto :: "unit settled"
  waitForTimeout :: "unit settled"
  anomaly_visible :: "bool settled"
  dialog_visible :: "bool settled"
  click_agree :: "unit settled"
  wait_dialog_hidden :: "unit settled"
  wait_dropdown_button :: "unit settled"
  anomaly_visible2 :: "bool settled"
  click_dropdown_button :: "unit settled"
  wait_radiogroup :: "unit settled"
  eval_items :: "list_item list settled"
  click_close :: "unit settled"
  wait_modal_hidden :: "unit settled"
  press_escape :: "unit settled"
  browser_close :: "unit settled"
  browser_close_in_catch :: "unit settled"

record nav_result =
  success :: bool
  message :: string
  error :: "string option"
  models :: "model list"

text \<open>Decimal rendering of a number inside a template literal.\<close>

definition digit_char :: "nat \<Rightarrow> char" where
  "digit_char d = char_of (48 + d)"

fun show_nat :: "nat \<Rightarrow> string" where
  "show_nat n = (if n < 10 then [digit_char n] else show_nat (n div 10) @ [digit_char (n mod 10)])"

declare show_nat.simps [simp del]

text \<open>\<open>.isVisible().catch(() => false)\<close>\<close>

definition catch_false :: "bool settled \<Rightarrow> bool" where
  "catch_false r = (case r of Fulfilled b \<Rightarrow> b | Rejected _ \<Rightarrow> False)"

definition captcha_message :: string where
  "captcha_message = ''CAPTCHA/Challenge detected. Cannot proceed in headless mode''"

text \<open>Lines 17-77: launch the browser unless one is already held.\<close>

definition acquire_browser :: "browser_globals \<Rightarrow> page_run \<Rightarrow> browser_globals \<times> unit settled" where
  "acquire_browser g p =
     (if globalBrowser g then (g, Fulfilled ())
      else (case launch p of
        Rejected e \<Rightarrow> (g, Rejected e)
      | Fulfilled _ \<Rightarrow>
          (let g1 = g\<lparr>globalBrowser := True\<rparr> in
           (case newContext p of
              Rejected e \<Rightarrow> (g1, Rejected e)
            | Fulfilled _ \<Rightarrow>
                (let g2 = g1\<lparr>globalContext := True\<rparr> in
                 (case addInitScript p of
                    Rejected e \<Rightarrow> (g2, Rejected e)
                  | Fulfilled _ \<Rightarrow>
                      (case newPage p of
                         Rejected e \<Rightarrow> (g2, Rejected e)
                       | Fulfilled _ \<Rightarrow> (g2\<lparr>globalPage := True\<rparr>, Fulfilled ()))))))))"

text \<open>Lines 82-115: first visit of the site, challenge check, consent dialog.\<close>

definition visit_site :: "page_run \<Rightarrow> unit settled" where
  "visit_site p =
     (if url_includes_duck p then Fulfilled ()
      else (case goto p of
        Rejected e \<Rightarrow> Rejected e
      | Fulfilled _ \<Rightarrow>
          (case waitForTimeout p of
             Rejected e \<Rightarrow> Rejected e
           | Fulfilled _ \<Rightarrow>
               (if catch_false (anomaly_visible p) then Rejected captcha_message
                else if catch_false (dialog_visible p) then
                  (case click_agree p of
                     Rejected e \<Rightarrow> Rejected e
                   | Fulfilled _ \<Rightarrow> wait_dialog_hidden p)
                else Fulfilled ()))))"

text \<open>Lines 118-148: wait for the dropdown button, re-check the challenge, open the list.\<close>

definition open_dropdown :: "page_run \<Rightarrow> unit settled" where
  "open_dropdown p =
     (case wait_dropdown_button p of
        Rejected e \<Rightarrow> Rejected e
      | Fulfilled _ \<Rightarrow>
          (if catch_false (anomaly_visible2 p) then Rejected captcha_message
           else (case click_dropdown_button p of
                   Rejected e \<Rightarrow> Rejected e
                 | Fulfilled _ \<Rightarrow> wait_radiogroup p)))"

text \<open>Lines 151-175: \<open>page.$$eval\<close> with the extraction callback.\<close>

definition extract_models :: "page_run \<Rightarrow> model list settled" where
  "extract_models p =
     (case eval_items p of
        Rejected e \<Rightarrow> Rejected e
      | Fulfilled items \<Rightarrow> Fulfilled (extract_items items))"

text \<open>
  Lines 178-191: the inner \<open>try\<close> clicks the close button and waits for the modal to
  hide; its \<open>catch\<close> presses Escape, and that call is awaited with no handler of its own.
\<close>

definition close_modal :: "page_run \<Rightarrow> unit settled" where
  "close_modal p =
     (case click_close p of
        Rejected _ \<Rightarrow> press_escape p
      | Fulfilled _ \<Rightarrow>
          (case wait_modal_hidden p of
             Rejected _ \<Rightarrow> press_escape p
           | Fulfilled _ \<Rightarrow> Fulfilled ()))"

definition no_browser :: "browser_globals" where
  "no_browser = \<lparr>globalBrowser = False, globalContext = False, globalPage = False\<rparr>"

text \<open>
  The body of the outer \<open>try\<close> (lines 16-205). \<open>page.url()\<close> on a \<open>null\<close>
  \<open>globalPage\<close> (a browser whose launch went through and whose page was never made) is
  a \<open>TypeError\<close>.
\<close>

definition null_page_message :: string where
  "null_page_message = ''Cannot read properties of null (reading 'url')''"

definition try_body :: "bool \<Rightarrow> browser_globals \<Rightarrow> page_run \<Rightarrow> browser_globals \<times> model list settled" where
  "try_body keepOpen g p =
     (case acquire_browser g p of
        (g1, Rejected e) \<Rightarrow> (g1, Rejected e)
      | (g1, Fulfilled _) \<Rightarrow>
          (if \<not> globalPage g1 then (g1, Rejected null_page_message)
           else (case visit_site p of
             Rejected e \<Rightarrow> (g1, Rejected e)
           | Fulfilled _ \<Rightarrow>
               (case open_dropdown p of
                  Rejected e \<Rightarrow> (g1, Rejected e)
                | Fulfilled _ \<Rightarrow>
                    (case extract_models p of
                       Rejected e \<Rightarrow> (g1, Rejected e)
                     | Fulfilled ms \<Rightarrow>
                         (case close_modal p of
                            Rejected e \<Rightarrow> (g1, Rejected e)
                          | Fulfilled _ \<Rightarrow>
                              (if \<not> keepOpen \<and> globalBrowser g1 then
                                 (case browser_close p of
                                    Rejected e \<Rightarrow> (g1, Rejected e)
                                  | Fulfilled _ \<Rightarrow> (no_browser, Fulfilled ms))
                               else (g1, Fulfilled ms))))))))"

text \<open>
  \<open>navigateToDuckAI(keepOpen)\<close>. The promise it returns rejects only when the
  \<open>catch\<close> block's own \<open>globalBrowser.close()\<close> rejects.
\<close>

definition navigateToDuckAI :: "bool \<Rightarrow> browser_globals \<Rightarrow> page_run \<Rightarrow> browser_globals \<times> nav_result settled" where
  "navigateToDuckAI keepOpen g p =
     (case try_body keepOpen g p of
        (g1, Fulfilled ms) \<Rightarrow>
          (g1, Fulfilled \<lparr>success = True,
                 message = ''Successfully extracted '' @ show_nat (length ms) @ '' free models!'',
                 error = None, models = ms\<rparr>)
      | (g1, Rejected e) \<Rightarrow>
          (let failure = \<lparr>success = False, message = ''Error: '' @ e, error = Some e, models = []\<rparr> in
           (if globalBrowser g1 \<and> \<not> keepOpen then
              (case browser_close_in_catch p of
                 Rejected e2 \<Rightarrow> (g1, Rejected e2)
               | Fulfilled _ \<Rightarrow> (no_browser, Fulfilled failure))
            else (g1, Fulfilled failure))))"

section \<open>\<open>src/commands/handlers.js\<close>: stores and outbound calls\<close>

text \<open>The emoji of the message texts, as UTF-8 bytes.\<close>

definition emoji_check :: string where
  "emoji_check = [CHR 0xE2, CHR 0x9C, CHR 0x85]"

definition emoji_cross :: string where
  "emoji_cross = [CHR 0xE2, CHR 0x9D, CHR 0x8C]"

definition emoji_cycle :: string where
  "emoji_cycle = [CHR 0xF0, CHR 0x9F, CHR 0x94, CHR 0x84]"

definition emoji_robot :: string where
  "emoji_robot = [CHR 0xF0, CHR 0x9F, CHR 0xA4, CHR 0x96]"

definition emoji_warning :: string where
  "emoji_warning = [CHR 0xE2, CHR 0x9A, CHR 0xA0, CHR 0xEF, CHR 0xB8, CHR 0x8F]"

definition emoji_party :: string where
  "emoji_party = [CHR 0xF0, CHR 0x9F, CHR 0x8E, CHR 0x89]"

definition emoji_rocket :: string where
  "emoji_rocket = [CHR 0xF0, CHR 0x9F, CHR 0x9A, CHR 0x80]"

definition emoji_left_arrow :: string where
  "emoji_left_arrow = [CHR 0xE2, CHR 0xAC, CHR 0x85, CHR 0xEF, CHR 0xB8, CHR 0x8F]"

definition newline :: string where
  "newline = [CHR 0x0A]"

record message_pair =
  userMessageId :: message_id
  botMessageId :: message_id

datatype button = CallbackButton string string | UrlButton string string

text \<open>
  The \<open>extra\<close> argument of a send or an edit: nothing, an inline keyboard (rows of
  buttons), or the reply keyboard with its placeholder.
\<close>

datatype markup =
    NoMarkup
  | InlineKeyboard "button list list"
  | ReplyKeyboard "string list list" string

text \<open>
  Every call the handlers make on the outside world, in the order they make it:
  \<open>ctx.reply\<close>, \<open>editMessageText\<close> (with the \<open>parse_mode: "Markdown"\<close> flag),
  \<open>deleteMessage\<close>, \<open>answerCbQuery\<close> (text and \<open>show_alert\<close>),
  \<open>console.error\<close> (its label), the \<open>setTimeout\<close> of line 158 whose callback
  deletes the status message and ignores a failure, and \<open>navigateToDuckAI()\<close>.
\<close>

datatype action =
    SendMessage chat_id string markup
  | EditMessageText chat_id message_id string bool markup
  | DeleteMessage chat_id message_id
  | AnswerCbQuery "string option" bool
  | ConsoleError string
  | SetTimeoutDelete chat_id message_id
  | CallNavigateToDuckAI

text \<open>
  The module-level stores. \<open>userAcceptanceStore\<close> only ever maps an id to
  \<open>true\<close> and is only tested for truthiness, so it is the set of its keys.
\<close>

record bot_state =
  messageStore :: "chat_id \<rightharpoonup> message_pair"
  userAcceptanceStore :: "user_id set"
  userModelsStore :: "user_id \<rightharpoonup> model list"
  userSelectedModelStore :: "user_id \<rightharpoonup> string"
  fetchingModelsFor :: "user_id set"
  outbox :: "action list"

text \<open>
  What the handlers read of the Telegraf context: \<open>ctx.from.id\<close>,
  \<open>ctx.from.first_name\<close>, \<open>ctx.from.username\<close>, \<open>ctx.chat.id\<close> and the id of
  the message the update is about (\<open>ctx.message.message_id\<close> for a text message, the
  message of the callback query for a button).
\<close>

record ctx =
  from_id :: user_id
  from_first_name :: "string option"
  from_username :: "string option"
  chat :: chat_id
  ctx_message_id :: message_id

definition emit :: "action \<Rightarrow> bot_state \<Rightarrow> bot_state" where
  "emit a st = st\<lparr>outbox := outbox st @ [a]\<rparr>"

section \<open>\<open>ensureModelsLoaded\<close> (lines 121-185)\<close>

text \<open>
  The four shapes of object the function returns, named after the return site:
  line 124, line 129, line 166, and lines 176 and 180.
\<close>

datatype load_result = AlreadyLoaded | Busy | Loaded "model list" | Failed string

definition load_success :: "load_result \<Rightarrow> bool" where
  "load_success r = (case r of AlreadyLoaded \<Rightarrow> True | Loaded _ \<Rightarrow> True | _ \<Rightarrow> False)"

definition load_alreadyLoaded :: "load_result \<Rightarrow> bool" where
  "load_alreadyLoaded r = (r = AlreadyLoaded)"

definition load_message :: "load_result \<Rightarrow> string option" where
  "load_message r =
     (case r of Busy \<Rightarrow> Some ''Already fetching models, please wait...''
              | Failed m \<Rightarrow> Some m
              | _ \<Rightarrow> None)"

text \<open>\<open>userModelsStore[userId] && userModelsStore[userId].length > 0\<close>\<close>

definition cached :: "bot_state \<Rightarrow> user_id \<Rightarrow> bool" where
  "cached st u = (case userModelsStore st u of Some ms \<Rightarrow> ms \<noteq> [] | None \<Rightarrow> False)"

text \<open>
  The function suspends at three \<open>await\<close>s. A suspended call is the await it waits at
  together with the locals it still needs: \<open>statusMsg.message_id\<close>, then
  \<open>result.models\<close> or \<open>result.message\<close>.
\<close>

datatype ensure_pc =
    AwaitReply
  | AwaitNavigate message_id
  | AwaitEditLoaded message_id "model list"
  | AwaitEditFailed message_id string

datatype ensure_status = Suspended ensure_pc | Returned load_result

datatype settlement =
    ReplySettled "message_id settled"
  | NavigateSettled "nav_result settled"
  | EditSettled "unit settled"

text \<open>The \<open>finally\<close> block (line 183), then the return.\<close>

definition ensure_finally :: "user_id \<Rightarrow> load_result \<Rightarrow> bot_state \<Rightarrow> bot_state \<times> ensure_status" where
  "ensure_finally u r st = (st\<lparr>fetchingModelsFor := fetchingModelsFor st - {u}\<rparr>, Returned r)"

text \<open>The \<open>catch\<close> block (lines 178-180), which falls into \<open>finally\<close>.\<close>

definition ensure_catch :: "user_id \<Rightarrow> string \<Rightarrow> bot_state \<Rightarrow> bot_state \<times> ensure_status" where
  "ensure_catch u e st = ensure_finally u (Failed e) (emit (ConsoleError ''Error fetching models:'') st)"

text \<open>From the call to the first \<open>await\<close> (lines 123-140).\<close>

definition ensure_enter :: "ctx \<Rightarrow> user_id \<Rightarrow> bot_state \<Rightarrow> bot_state \<times> ensure_status" where
  "ensure_enter c u st =
     (if cached st u then (st, Returned AlreadyLoaded)
      else if u \<in> fetchingModelsFor st then (st, Returned Busy)
      else (emit (SendMessage (chat c) (emoji_cycle @ '' Connecting to server...'') NoMarkup)
              (st\<lparr>fetchingModelsFor := insert u (fetchingModelsFor st)\<rparr>),
            Suspended AwaitReply))"

text \<open>
  From the settling of the awaited promise to the next \<open>await\<close> or to the return.
  A settlement that is not of the awaited call leaves the call where it is.
\<close>

definition ensure_resume :: "ctx \<Rightarrow> user_id \<Rightarrow> ensure_pc \<Rightarrow> settlement \<Rightarrow> bot_state \<Rightarrow> bot_state \<times> ensure_status" where
  "ensure_resume c u pc x st =
     (case pc of
        AwaitReply \<Rightarrow>
          (case x of
             ReplySettled (Fulfilled mid) \<Rightarrow> (emit CallNavigateToDuckAI st, Suspended (AwaitNavigate mid))
           | ReplySettled (Rejected e) \<Rightarrow> ensure_catch u e st
           | _ \<Rightarrow> (st, Suspended pc))
      | AwaitNavigate mid \<Rightarrow>
          (case x of
             NavigateSettled (Fulfilled result) \<Rightarrow>
               (if success result then
                  (emit (EditMessageText (chat c) mid
                           (emoji_check @ '' Successfully loaded '' @ show_nat (length (models result))
                            @ '' models!'')
                           False NoMarkup)
                     (st\<lparr>userModelsStore := (userModelsStore st)(u \<mapsto> models result)\<rparr>),
                   Suspended (AwaitEditLoaded mid (models result)))
                else
                  (emit (EditMessageText (chat c) mid
                           (emoji_cross @ '' Failed to load models: '' @ message result) False NoMarkup) st,
                   Suspended (AwaitEditFailed mid (message result))))
           | NavigateSettled (Rejected e) \<Rightarrow> ensure_catch u e st
           | _ \<Rightarrow> (st, Suspended pc))
      | AwaitEditLoaded mid ms \<Rightarrow>
          (case x of
             EditSettled (Fulfilled _) \<Rightarrow>
               ensure_finally u (Loaded ms) (emit (SetTimeoutDelete (chat c) mid) st)
           | EditSettled (Rejected e) \<Rightarrow> ensure_catch u e st
           | _ \<Rightarrow> (st, Suspended pc))
      | AwaitEditFailed mid m \<Rightarrow>
          (case x of
             EditSettled (Fulfilled _) \<Rightarrow> ensure_finally u (Failed m) st
           | EditSettled (Rejected e) \<Rightarrow> ensure_catch u e st
           | _ \<Rightarrow> (st, Suspended pc)))"

subsection \<open>One call run from start to return\<close>

text \<open>
  The answers to one call: how the status message's \<open>ctx.reply\<close> settles, how the
  page behaves during \<open>navigateToDuckAI()\<close>, how the \<open>editMessageText\<close> settles.
\<close>

record ensure_run =
  reply_settles :: "message_id settled"
  page :: page_run
  edit_settles :: "unit settled"

text \<open>
  The call with nothing else running in between. \<open>navigateToDuckAI\<close> is called with
  no argument, so \<open>keepOpen\<close> is \<open>true\<close>. The result is \<open>None\<close> should the call
  still be suspended after its three awaits.
\<close>

definition ensureModelsLoaded ::
  "ctx \<Rightarrow> user_id \<Rightarrow> ensure_run \<Rightarrow> bot_state \<times> browser_globals \<Rightarrow> (bot_state \<times> browser_globals) \<times> load_result option" where
  "ensureModelsLoaded c u env sg =
     (case sg of (st, g) \<Rightarrow>
       (case ensure_enter c u st of
          (st1, Returned r) \<Rightarrow> ((st1, g), Some r)
        | (st1, Suspended pc1) \<Rightarrow>
            (case ensure_resume c u pc1 (ReplySettled (reply_settles env)) st1 of
               (st2, Returned r) \<Rightarrow> ((st2, g), Some r)
             | (st2, Suspended pc2) \<Rightarrow>
                 (case navigateToDuckAI True g (page env) of
                    (g3, nav) \<Rightarrow>
                      (case ensure_resume c u pc2 (NavigateSettled nav) st2 of
                         (st3, Returned r) \<Rightarrow> ((st3, g3), Some r)
                       | (st3, Suspended pc3) \<Rightarrow>
                           (case ensure_resume c u pc3 (EditSettled (edit_settles env)) st3 of
                              (st4, Returned r) \<Rightarrow> ((st4, g3), Some r)
                            | (st4, Suspended pc4) \<Rightarrow> ((st4, g3), None)))))))"

subsection \<open>Calls of several users interleaved\<close>

text \<open>
  JavaScript runs one continuation at a time, so between two \<open>await\<close>s a call is
  atomic, and at an \<open>await\<close> any other handler may run. The system is the stores, the
  calls of \<open>ensureModelsLoaded\<close> suspended at an \<open>await\<close>, and the results of the
  calls that returned, oldest first.
\<close>

record system =
  bot :: bot_state
  running :: "(ctx \<times> user_id \<times> ensure_pc) list"
  returned :: "(user_id \<times> load_result) list"

text \<open>
  \<open>Call\<close>: \<open>ensureModelsLoaded(ctx, userId)\<close> is called and runs to its first
  \<open>await\<close> or to its return. \<open>Settle i s\<close>: the promise awaited by the \<open>i\<close>-th
  suspended call settles and that call runs on. \<open>StoreModels\<close>: another handler
  (\<open>acceptPolicyHandler\<close> line 244, \<open>openHandler\<close> line 560) stores a catalog it
  fetched.
\<close>

datatype event =
    Call ctx user_id
  | Settle nat settlement
  | StoreModels user_id "model list"

definition task_user :: "ctx \<times> user_id \<times> ensure_pc \<Rightarrow> user_id" where
  "task_user t = fst (snd t)"

definition drop_nth :: "nat \<Rightarrow> 'a list \<Rightarrow> 'a list" where
  "drop_nth i xs = take i xs @ drop (Suc i) xs"

fun sys_step :: "system \<Rightarrow> event \<Rightarrow> system" where
  "sys_step s (Call c u) =
     (case ensure_enter c u (bot s) of
        (b, Returned r) \<Rightarrow> s\<lparr>bot := b, returned := returned s @ [(u, r)]\<rparr>
      | (b, Suspended pc) \<Rightarrow> s\<lparr>bot := b, running := running s @ [(c, u, pc)]\<rparr>)"
| "sys_step s (Settle i x) =
     (if i < length (running s) then
        (case running s ! i of
           (c, u, pc) \<Rightarrow>
             (case ensure_resume c u pc x (bot s) of
                (b, Returned r) \<Rightarrow>
                  s\<lparr>bot := b, running := drop_nth i (running s), returned := returned s @ [(u, r)]\<rparr>
              | (b, Suspended pc') \<Rightarrow>
                  s\<lparr>bot := b, running := (running s)[i := (c, u, pc')]\<rparr>))
      else s)"
| "sys_step s (StoreModels u ms) =
     s\<lparr>bot := (bot s)\<lparr>userModelsStore := (userModelsStore (bot s))(u \<mapsto> ms)\<rparr>\<rparr>"

fun run :: "system \<Rightarrow> event list \<Rightarrow> system" where
  "run s [] = s"
| "run s (e # es) = run (sys_step s e) es"

definition initial_bot :: bot_state where
  "initial_bot =
     \<lparr>messageStore = Map.empty, userAcceptanceStore = {}, userModelsStore = Map.empty,
      userSelectedModelStore = Map.empty, fetchingModelsFor = {}, outbox = []\<rparr>"

definition initial_system :: system where
  "initial_system = \<lparr>bot = initial_bot, running = [], returned = []\<rparr>"

section \<open>The menu handlers\<close>

text \<open>
  A handler is run from start to end with nothing else in between; its value is how
  its promise settles (\<open>Rejected\<close> when an error leaves the handler).
\<close>

subsection \<open>\<open>showModelMenu\<close> (lines 294-345)\<close>

text \<open>
  The row label: \<open>model.isBeta ? `${model.name} [${model.isBeta}]` : model.name\<close>.
  The test is JavaScript truthiness: \<open>null\<close> and the empty string are both falsy.
\<close>

definition button_text :: "model \<Rightarrow> string" where
  "button_text m =
     (case isBeta m of
        Some b \<Rightarrow> (if b \<noteq> [] then name m @ '' ['' @ b @ '']'' else name m)
      | None \<Rightarrow> name m)"

definition close_button :: button where
  "close_button = CallbackButton (emoji_cross @ '' Close'') ''close_menu''"

text \<open>Lines 326-334 (and again 422-430): one row per model, then the close row.\<close>

definition modelButtons :: "model list \<Rightarrow> button list list" where
  "modelButtons ms =
     map (\<lambda>m. [CallbackButton (button_text m) (''view_model_'' @ name m)]) ms @ [[close_button]]"

text \<open>\<open>userModelsStore[userId] || []\<close>\<close>

definition stored_models :: "bot_state \<Rightarrow> user_id \<Rightarrow> model list" where
  "stored_models st u = (case userModelsStore st u of Some ms \<Rightarrow> ms | None \<Rightarrow> [])"

definition not_accepted_text :: string where
  "not_accepted_text = emoji_warning @ '' Please start the bot with /start and accept the policy first.''"

text \<open>Lines 310-345: the handler from the return of \<open>ensureModelsLoaded\<close> on.\<close>

definition showModelMenu_resume ::
  "ctx \<Rightarrow> load_result \<Rightarrow> message_id settled \<Rightarrow> bot_state \<Rightarrow> bot_state \<times> unit settled" where
  "showModelMenu_resume c loadResult menu_reply st =
     (if \<not> load_success loadResult \<and> \<not> load_alreadyLoaded loadResult then
        (case load_message loadResult of
           Some m \<Rightarrow>
             (if m \<noteq> [] then
                (emit (SendMessage (chat c)
                         (emoji_warning @ '' '' @ m @ newline @ newline @ ''Please try again.'') NoMarkup) st,
                 Fulfilled ())
              else (st, Fulfilled ()))
         | None \<Rightarrow> (st, Fulfilled ()))
      else
        (let ms = stored_models st (from_id c) in
         if ms = [] then
           (emit (SendMessage (chat c) (emoji_warning @ '' No models available. Please try again.'') NoMarkup) st,
            Fulfilled ())
         else
           (let st1 = emit (SendMessage (chat c) (emoji_robot @ '' Available Models:'')
                              (InlineKeyboard (modelButtons ms))) st
            in (case menu_reply of
                  Rejected e \<Rightarrow> (st1, Rejected e)
                | Fulfilled mid \<Rightarrow>
                    (st1\<lparr>messageStore := (messageStore st1)(chat c \<mapsto>
                            \<lparr>userMessageId = ctx_message_id c, botMessageId = mid\<rparr>)\<rparr>,
                     Fulfilled ())))))"

record menu_run =
  ensure :: ensure_run
  menu_reply_settles :: "message_id settled"

text \<open>The whole handler; \<open>None\<close> should \<open>ensureModelsLoaded\<close> not return.\<close>

definition showModelMenu ::
  "ctx \<Rightarrow> menu_run \<Rightarrow> bot_state \<times> browser_globals \<Rightarrow> (bot_state \<times> browser_globals) \<times> unit settled option" where
  "showModelMenu c env sg =
     (case sg of (st, g) \<Rightarrow>
       (if from_id c \<notin> userAcceptanceStore st then
          ((emit (SendMessage (chat c) not_accepted_text NoMarkup) st, g), Some (Fulfilled ()))
        else
          (case ensureModelsLoaded c (from_id c) (ensure env) (st, g) of
             ((st1, g1), None) \<Rightarrow> ((st1, g1), None)
           | ((st1, g1), Some loadResult) \<Rightarrow>
               (case showModelMenu_resume c loadResult (menu_reply_settles env) st1 of
                  (st2, r) \<Rightarrow> ((st2, g1), Some r)))))"

subsection \<open>\<open>viewModelDetails\<close> (lines 352-406)\<close>

fun starts_with :: "string \<Rightarrow> string \<Rightarrow> bool" where
  "starts_with s [] = True"
| "starts_with [] (p # ps) = False"
| "starts_with (c # cs) (p # ps) = (c = p \<and> starts_with cs ps)"

text \<open>\<open>String.prototype.includes\<close>\<close>

fun includes_str :: "string \<Rightarrow> string \<Rightarrow> bool" where
  "includes_str [] sub = (sub = [])"
| "includes_str (c # cs) sub = (starts_with (c # cs) sub \<or> includes_str cs sub)"

definition feature_emoji :: "string \<Rightarrow> string" where
  "feature_emoji feature =
     (if includes_str feature ''Image'' then ''  '' @ [CHR 0xF0, CHR 0x9F, CHR 0x93, CHR 0xB7]
      else if includes_str feature ''Web search'' then ''  '' @ [CHR 0xF0, CHR 0x9F, CHR 0x8C, CHR 0x90]
      else if includes_str feature ''General-purpose'' then ''  '' @ [CHR 0xE2, CHR 0xAD, CHR 0x90]
      else if includes_str feature ''Reasoning'' then ''  '' @ [CHR 0xF0, CHR 0x9F, CHR 0x92, CHR 0xA1]
      else if includes_str feature ''moderation'' then
        ''  '' @ [CHR 0xF0, CHR 0x9F, CHR 0x9B, CHR 0xA1, CHR 0xEF, CHR 0xB8, CHR 0x8F]
      else if includes_str feature ''Open source'' then ''  '' @ [CHR 0xF0, CHR 0x9F, CHR 0x94, CHR 0x93]
      else if includes_str feature ''Created by'' then ''  '' @ [CHR 0xF0, CHR 0x9F, CHR 0x91, CHR 0xA4]
      else ''  '' @ [CHR 0xE2, CHR 0x80, CHR 0xA2])"

definition feature_line :: "string \<Rightarrow> string" where
  "feature_line feature = feature_emoji feature @ '' '' @ feature @ newline"

text \<open>Lines 365-387: the text of the detail view.\<close>

definition details_text :: "model \<Rightarrow> string" where
  "details_text m =
     emoji_robot @ '' *'' @ name m @ ''*''
     @ (case isBeta m of Some b \<Rightarrow> (if b \<noteq> [] then '' ['' @ b @ '']'' else []) | None \<Rightarrow> [])
     @ newline @ newline
     @ (if features m \<noteq> [] then ''*Features:*'' @ newline @ concat (map feature_line (features m))
        else [])"

definition details_keyboard :: "model \<Rightarrow> markup" where
  "details_keyboard m =
     InlineKeyboard [[CallbackButton (emoji_left_arrow @ '' Back'') ''back_to_models'',
                      CallbackButton (emoji_check @ '' Select'') (''select_model_'' @ name m)]]"

text \<open>
  How the calls of one run settle: the \<open>editMessageText\<close> of line 397, the first
  \<open>answerCbQuery\<close> the run reaches (line 360 or line 401), the one of the \<open>catch\<close>
  block (line 404).
\<close>

record details_run =
  details_edit :: "unit settled"
  details_answer :: "unit settled"
  details_catch_answer :: "unit settled"

definition details_catch :: "details_run \<Rightarrow> bot_state \<Rightarrow> bot_state \<times> unit settled" where
  "details_catch env st =
     (emit (AnswerCbQuery (Some ''Error displaying model details'') False)
        (emit (ConsoleError ''Error editing message:'') st),
      details_catch_answer env)"

definition viewModelDetails :: "ctx \<Rightarrow> string \<Rightarrow> details_run \<Rightarrow> bot_state \<Rightarrow> bot_state \<times> unit settled" where
  "viewModelDetails c modelName env st =
     (case find (\<lambda>m. name m = modelName) (stored_models st (from_id c)) of
        None \<Rightarrow>
          (emit (AnswerCbQuery (Some (emoji_cross @ '' Model not found'')) False) st, details_answer env)
      | Some m \<Rightarrow>
          (let st1 = emit (EditMessageText (chat c) (ctx_message_id c) (details_text m) True
                             (details_keyboard m)) st
           in (case details_edit env of
                 Rejected e \<Rightarrow> details_catch env st1
               | Fulfilled _ \<Rightarrow>
                   (let st2 = emit (AnswerCbQuery None False) st1
                    in (case details_answer env of
                          Rejected e \<Rightarrow> details_catch env st2
                        | Fulfilled _ \<Rightarrow> (st2, Fulfilled ()))))))"

subsection \<open>\<open>handleModelSelection\<close> (lines 449-479)\<close>

text \<open>
  How the calls of one run settle: the \<open>answerCbQuery\<close> of line 457 and the two
  \<open>deleteMessage\<close> calls of lines 465 and 468.
\<close>

record selection_run =
  alert_settles :: "unit settled"
  delete_bot_settles :: "unit settled"
  delete_user_settles :: "unit settled"

definition handleModelSelection ::
  "ctx \<Rightarrow> string \<Rightarrow> selection_run \<Rightarrow> bot_state \<Rightarrow> bot_state \<times> unit settled" where
  "handleModelSelection c modelName env st =
     (let st1 = st\<lparr>userSelectedModelStore := (userSelectedModelStore st)(from_id c \<mapsto> modelName)\<rparr>;
          st2 = emit (AnswerCbQuery (Some (emoji_check @ '' '' @ modelName @ '' has been selected!'')) True) st1
      in (case alert_settles env of
            Rejected e \<Rightarrow> (st2, Rejected e)
          | Fulfilled _ \<Rightarrow>
              (case messageStore st2 (chat c) of
                 None \<Rightarrow> (st2, Fulfilled ())
               | Some pair \<Rightarrow>
                   (let st3 = emit (DeleteMessage (chat c) (botMessageId pair)) st2
                    in (case delete_bot_settles env of
                          Rejected e \<Rightarrow> (emit (ConsoleError ''Error deleting messages:'') st3, Fulfilled ())
                        | Fulfilled _ \<Rightarrow>
                            (let st4 = emit (DeleteMessage (chat c) (userMessageId pair)) st3
                             in (case delete_user_settles env of
                                   Rejected e \<Rightarrow>
                                     (emit (ConsoleError ''Error deleting messages:'') st4, Fulfilled ())
                                 | Fulfilled _ \<Rightarrow>
                                     (st4\<lparr>messageStore := (messageStore st4)(chat c := None)\<rparr>,
                                      Fulfilled ()))))))))"

section \<open>The two handlers that fetch without \<open>ensureModelsLoaded\<close>\<close>

text \<open>\<open>ctx.from.first_name || ctx.from.username || "there"\<close>\<close>

definition username_of :: "ctx \<Rightarrow> string" where
  "username_of c =
     (case from_first_name c of
        Some n \<Rightarrow> (if n \<noteq> [] then n
                   else (case from_username c of Some v \<Rightarrow> (if v \<noteq> [] then v else ''there'') | None \<Rightarrow> ''there''))
      | None \<Rightarrow> (case from_username c of Some v \<Rightarrow> (if v \<noteq> [] then v else ''there'') | None \<Rightarrow> ''there''))"

definition main_keyboard :: markup where
  "main_keyboard = ReplyKeyboard [[emoji_cycle @ '' Change Model'']] ''Ask anything...''"

definition all_set_text :: "string \<Rightarrow> string" where
  "all_set_text username = ''You're all set, '' @ username @ ''! '' @ emoji_party"

subsection \<open>\<open>acceptPolicyHandler\<close> (lines 221-275)\<close>

text \<open>
  How the calls of one run settle, in source order. \<open>saveUser\<close> never throws; what it
  does to the stores is \<open>loadUsers\<close> marking every user of the file as accepted, and
  \<open>file_user_ids\<close> are those users (none when the file cannot be read).
  \<open>accept_edit_outcome\<close> is the edit of line 247 or 259, \<open>accept_reply\<close> the reply
  of line 257 or 266.
\<close>

record accept_run =
  edit_logging_in :: "unit settled"
  file_user_ids :: "user_id list"
  accept_answer :: "unit settled"
  edit_connecting :: "unit settled"
  accept_page :: page_run
  accept_edit_outcome :: "unit settled"
  accept_delete :: "unit settled"
  accept_reply :: "message_id settled"
  accept_catch_edit :: "unit settled"

text \<open>The \<open>catch\<close> block (lines 268-274).\<close>

definition accept_catch :: "ctx \<Rightarrow> accept_run \<Rightarrow> bot_state \<Rightarrow> bot_state \<times> unit settled" where
  "accept_catch c env st =
     (let st1 = emit (EditMessageText (chat c) (ctx_message_id c)
                        (emoji_cross @ '' An error occurred. Please try again.'') False NoMarkup)
                  (emit (ConsoleError ''Error in acceptPolicyHandler:'') st)
      in (case accept_catch_edit env of
            Rejected e \<Rightarrow> (st1, Rejected e)
          | Fulfilled _ \<Rightarrow>
              (emit (SendMessage (chat c) (all_set_text (username_of c)) main_keyboard) st1, Fulfilled ())))"

text \<open>Lines 242-267: what the handler does with the settled \<open>navigateToDuckAI()\<close>.\<close>

definition accept_resume :: "ctx \<Rightarrow> accept_run \<Rightarrow> nav_result settled \<Rightarrow> bot_state \<Rightarrow> bot_state \<times> unit settled" where
  "accept_resume c env nav st =
     (case nav of
        Rejected e \<Rightarrow> accept_catch c env st
      | Fulfilled result \<Rightarrow>
          (if success result then
             (let st1 = emit (EditMessageText (chat c) (ctx_message_id c)
                                (''Connected successfully '' @ emoji_check) False NoMarkup)
                          (st\<lparr>userModelsStore := (userModelsStore st)(from_id c \<mapsto> models result)\<rparr>)
              in (case accept_edit_outcome env of
                    Rejected e \<Rightarrow> accept_catch c env st1
                  | Fulfilled _ \<Rightarrow>
                      (let st2 = emit (DeleteMessage (chat c) (ctx_message_id c)) st1
                       in (case accept_delete env of
                             Rejected e \<Rightarrow> accept_catch c env st2
                           | Fulfilled _ \<Rightarrow>
                               (let st3 = emit (SendMessage (chat c) (all_set_text (username_of c))
                                                  main_keyboard) st2
                                in (case accept_reply env of
                                      Rejected e \<Rightarrow> accept_catch c env st3
                                    | Fulfilled _ \<Rightarrow> (st3, Fulfilled ())))))))
           else
             (let st1 = emit (EditMessageText (chat c) (ctx_message_id c)
                                (emoji_cross @ '' Connection failed: '' @ message result) False NoMarkup) st
              in (case accept_edit_outcome env of
                    Rejected e \<Rightarrow> accept_catch c env st1
                  | Fulfilled _ \<Rightarrow>
                      (let st2 = emit (SendMessage (chat c) ''You can try again later.'' main_keyboard) st1
                       in (case accept_reply env of
                             Rejected e \<Rightarrow> accept_catch c env st2
                           | Fulfilled _ \<Rightarrow> (st2, Fulfilled ())))))))"

definition acceptPolicyHandler ::
  "ctx \<Rightarrow> accept_run \<Rightarrow> bot_state \<times> browser_globals \<Rightarrow> (bot_state \<times> browser_globals) \<times> unit settled" where
  "acceptPolicyHandler c env sg =
     (case sg of (st, g) \<Rightarrow>
       (let st1 = emit (EditMessageText (chat c) (ctx_message_id c) ''Logging you in...'' False NoMarkup) st
        in (case edit_logging_in env of
              Rejected e \<Rightarrow> (case accept_catch c env st1 of (st', r) \<Rightarrow> ((st', g), r))
            | Fulfilled _ \<Rightarrow>
                (let st2 = st1\<lparr>userAcceptanceStore :=
                                 insert (from_id c) (userAcceptanceStore st1 \<union> set (file_user_ids env))\<rparr>;
                     st3 = emit (AnswerCbQuery None False) st2
                 in (case accept_answer env of
                       Rejected e \<Rightarrow> (case accept_catch c env st3 of (st', r) \<Rightarrow> ((st', g), r))
                     | Fulfilled _ \<Rightarrow>
                         (let st4 = emit (EditMessageText (chat c) (ctx_message_id c)
                                            ''Connecting to server...'' False NoMarkup) st3
                          in (case edit_connecting env of
                                Rejected e \<Rightarrow> (case accept_catch c env st4 of (st', r) \<Rightarrow> ((st', g), r))
                              | Fulfilled _ \<Rightarrow>
                                  (case navigateToDuckAI True g (accept_page env) of
                                     (g1, nav) \<Rightarrow>
                                       (case accept_resume c env nav (emit CallNavigateToDuckAI st4) of
                                          (st', r) \<Rightarrow> ((st', g1), r))))))))))"

subsection \<open>\<open>openHandler\<close> (lines 542-572)\<close>

text \<open>
  How the calls of one run settle: the reply of line 554, the page, the reply of line
  562 or 566, the reply of the \<open>catch\<close> block.
\<close>

record open_run =
  open_reply_start :: "message_id settled"
  open_page :: page_run
  open_reply_outcome :: "message_id settled"
  open_catch_reply :: "message_id settled"

definition open_catch :: "ctx \<Rightarrow> open_run \<Rightarrow> bot_state \<Rightarrow> bot_state \<times> unit settled" where
  "open_catch c env st =
     (let st1 = emit (SendMessage (chat c) (emoji_cross @ '' An error occurred. Please try again.'') NoMarkup)
                  (emit (ConsoleError ''Error in openHandler:'') st)
      in (case open_catch_reply env of
            Rejected e \<Rightarrow> (st1, Rejected e)
          | Fulfilled _ \<Rightarrow> (st1, Fulfilled ())))"

text \<open>Lines 558-567: what the handler does with the settled \<open>navigateToDuckAI()\<close>.\<close>

definition open_resume :: "ctx \<Rightarrow> open_run \<Rightarrow> nav_result settled \<Rightarrow> bot_state \<Rightarrow> bot_state \<times> unit settled" where
  "open_resume c env nav st =
     (case nav of
        Rejected e \<Rightarrow> open_catch c env st
      | Fulfilled result \<Rightarrow>
          (let st1 =
             (if success result then
                emit (SendMessage (chat c)
                        (emoji_check @ '' Successfully loaded '' @ show_nat (length (models result))
                         @ '' models!'' @ newline @ newline @ ''Use '' @ [CHR 0x22] @ emoji_cycle
                         @ '' Change Model'' @ [CHR 0x22] @ '' to see available options.'') NoMarkup)
                  (st\<lparr>userModelsStore := (userModelsStore st)(from_id c \<mapsto> models result)\<rparr>)
              else emit (SendMessage (chat c) (emoji_cross @ '' '' @ message result) NoMarkup) st)
           in (case open_reply_outcome env of
                 Rejected e \<Rightarrow> open_catch c env st1
               | Fulfilled _ \<Rightarrow> (st1, Fulfilled ()))))"

definition openHandler ::
  "ctx \<Rightarrow> open_run \<Rightarrow> bot_state \<times> browser_globals \<Rightarrow> (bot_state \<times> browser_globals) \<times> unit settled" where
  "openHandler c env sg =
     (case sg of (st, g) \<Rightarrow>
       (if from_id c \<notin> userAcceptanceStore st then
          ((emit (SendMessage (chat c) not_accepted_text NoMarkup) st, g), Fulfilled ())
        else
          (let st1 = emit (SendMessage (chat c) (emoji_rocket @ '' Starting browser automation...'') NoMarkup) st
           in (case open_reply_start env of
                 Rejected e \<Rightarrow> (case open_catch c env st1 of (st', r) \<Rightarrow> ((st', g), r))
               | Fulfilled _ \<Rightarrow>
                   (case navigateToDuckAI True g (open_page env) of
                      (g1, nav) \<Rightarrow>
                        (case open_resume c env nav (emit CallNavigateToDuckAI st1) of
                           (st', r) \<Rightarrow> ((st', g1), r)))))))"

section \<open>Predicates of the statements\<close>

text \<open>The close button was clicked and the modal hid within the bound.\<close>

definition close_control_ok :: "page_run \<Rightarrow> bool" where
  "close_control_ok p = (click_close p = Fulfilled () \<and> wait_modal_hidden p = Fulfilled ())"

text \<open>
  The suspended calls and the fetch guard agree: no user has two suspended calls, and
  the guard holds exactly the users of the suspended calls.
\<close>

definition guard_tracks :: "system \<Rightarrow> bool" where
  "guard_tracks s =
     (distinct (map task_user (running s)) \<and>
      fetchingModelsFor (bot s) = set (map task_user (running s)))"

text \<open>The pipeline result is a success object (and not a failure object or a rejection).\<close>

definition reports_success :: "nav_result settled \<Rightarrow> bool" where
  "reports_success nav = (case nav of Fulfilled result \<Rightarrow> success result | Rejected _ \<Rightarrow> False)"

section \<open>Concrete runs and states\<close>

text \<open>A page on which every call goes through and the list holds the given items.\<close>

definition smooth_run :: "list_item list \<Rightarrow> page_run" where
  "smooth_run items =
     \<lparr>launch = Fulfilled (), newContext = Fulfilled (), addInitScript = Fulfilled (),
      newPage = Fulfilled (), url_includes_duck = False, goto = Fulfilled (),
      waitForTimeout = Fulfilled (), anomaly_visible = Fulfilled False,
      dialog_visible = Fulfilled True, click_agree = Fulfilled (),
      wait_dialog_hidden = Fulfilled (), wait_dropdown_button = Fulfilled (),
      anomaly_visible2 = Fulfilled False, click_dropdown_button = Fulfilled (),
      wait_radiogroup = Fulfilled (), eval_items = Fulfilled items,
      click_close = Fulfilled (), wait_modal_hidden = Fulfilled (),
      press_escape = Fulfilled (), browser_close = Fulfilled (),
      browser_close_in_catch = Fulfilled ()\<rparr>"

definition bare_item :: list_item where
  "bare_item = \<lparr>nameElement = None, betaBadge = None, featureElements = []\<rparr>"

definition full_item :: list_item where
  "full_item = \<lparr>nameElement = Some ''  GPT-Model-X '', betaBadge = Some ''Beta'',
                 featureElements = ['' Image input '', ''Web search'']\<rparr>"

text \<open>The close button times out and the Escape key press fails as well.\<close>

definition stuck_modal_run :: page_run where
  "stuck_modal_run =
     (smooth_run [full_item])\<lparr>click_close := Rejected ''Timeout 5000ms exceeded.'',
                               press_escape := Rejected ''Target closed''\<rparr>"

text \<open>The close button is clicked, the modal does not hide in time, Escape works.\<close>

definition slow_modal_run :: page_run where
  "slow_modal_run = (smooth_run [full_item])\<lparr>wait_modal_hidden := Rejected ''Timeout 5000ms exceeded.''\<rparr>"

definition alice :: ctx where
  "alice = \<lparr>from_id = 7, from_first_name = Some ''Alice'', from_username = None,
            chat = 70, ctx_message_id = 500\<rparr>"

definition model_a :: model where
  "model_a = \<lparr>name = ''A'', isBeta = None, features = []\<rparr>"

definition model_b :: model where
  "model_b = \<lparr>name = ''B'', isBeta = Some ''Beta'', features = [''x'', ''y'']\<rparr>"

definition gpt_model_x :: model where
  "gpt_model_x = \<lparr>name = ''GPT-Model-X'', isBeta = Some ''Beta'',
                   features = [''Image input'', ''Web search'']\<rparr>"

text \<open>The site shows its challenge modal on the first visit.\<close>

definition challenge_run :: page_run where
  "challenge_run = (smooth_run [full_item])\<lparr>anomaly_visible := Fulfilled True\<rparr>"

definition challenge_env :: ensure_run where
  "challenge_env = \<lparr>reply_settles = Fulfilled 501, page = challenge_run, edit_settles = Fulfilled ()\<rparr>"

definition smooth_env :: ensure_run where
  "smooth_env = \<lparr>reply_settles = Fulfilled 501, page = smooth_run [full_item], edit_settles = Fulfilled ()\<rparr>"

text \<open>
  A first call for user 7 has sent its status message, fetched one model and stored
  it, and now waits for the edit of the status message.
\<close>

definition first_call_at_edit :: "event list" where
  "first_call_at_edit =
     [Call alice 7,
      Settle 0 (ReplySettled (Fulfilled 501)),
      Settle 0 (NavigateSettled (Fulfilled
        \<lparr>success = True, message = ''Successfully extracted 1 free models!'', error = None,
         models = [gpt_model_x]\<rparr>))]"

text \<open>User 8 has a catalog, user 7 is registered with an empty one; both accepted the policy.\<close>

definition stocked_bot :: bot_state where
  "stocked_bot = initial_bot\<lparr>userAcceptanceStore := {7, 8},
                              userModelsStore := [7 \<mapsto> [], 8 \<mapsto> [model_a, model_b]]\<rparr>"

definition bob :: ctx where
  "bob = \<lparr>from_id = 8, from_first_name = None, from_username = Some ''bob'',
          chat = 80, ctx_message_id = 600\<rparr>"

definition challenge_accept :: accept_run where
  "challenge_accept =
     \<lparr>edit_logging_in = Fulfilled (), file_user_ids = [8], accept_answer = Fulfilled (),
      edit_connecting = Fulfilled (), accept_page = challenge_run,
      accept_edit_outcome = Fulfilled (), accept_delete = Fulfilled (),
      accept_reply = Fulfilled 601, accept_catch_edit = Fulfilled ()\<rparr>"

definition challenge_open :: open_run where
  "challenge_open =
     \<lparr>open_reply_start = Fulfilled 601, open_page = challenge_run,
      open_reply_outcome = Fulfilled 602, open_catch_reply = Fulfilled 603\<rparr>"

definition all_handles :: browser_globals where
  "all_handles = \<lparr>globalBrowser = True, globalContext = True, globalPage = True\<rparr>"

text \<open>User 8 has the menu open in chat 80: message 600 asked for it, message 601 shows it.\<close>

definition menu_open_bot :: bot_state where
  "menu_open_bot = stocked_bot\<lparr>messageStore := [80 \<mapsto> \<lparr>userMessageId = 600, botMessageId = 601\<rparr>]\<rparr>"

definition clean_selection :: selection_run where
  "clean_selection = \<lparr>alert_settles = Fulfilled (), delete_bot_settles = Fulfilled (),
                      delete_user_settles = Fulfilled ()\<rparr>"

text \<open>The menu message is already gone when the selection tries to delete it.\<close>

definition menu_gone_selection :: selection_run where
  "menu_gone_selection = clean_selection\<lparr>delete_bot_settles := Rejected ''message to delete not found''\<rparr>"

definition clean_details :: details_run where
  "clean_details = \<lparr>details_edit = Fulfilled (), details_answer = Fulfilled (),
                    details_catch_answer = Fulfilled ()\<rparr>"

text \<open>A list item whose badge element exists and holds only a space, and its entry.\<close>

definition blank_badge_item :: list_item where
  "blank_badge_item = \<lparr>nameElement = Some ''A'', betaBadge = Some '' '', featureElements = []\<rparr>"

definition blank_beta :: model where
  "blank_beta = \<lparr>name = ''A'', isBeta = Some [], features = []\<rparr>"

text \<open>The menu message is deleted; the user's own message is already gone.\<close>

definition user_message_gone_selection :: selection_run where
  "user_message_gone_selection =
     clean_selection\<lparr>delete_user_settles := Rejected ''message to delete not found''\<rparr>"

definition selected_alert :: "string \<Rightarrow> action" where
  "selected_alert N = AnswerCbQuery (Some (emoji_check @ '' '' @ N @ '' has been selected!'')) True"

section \<open>Extraction and the dismissal of the list\<close>

lemma close_modal_cases:
  "close_modal p = (if close_control_ok p then Fulfilled () else press_escape p)"
  by (auto simp: close_modal_def close_control_ok_def split: settled.splits)

lemma extract_full_item:
  "extract_item full_item =
     \<lparr>name = ''GPT-Model-X'', isBeta = Some ''Beta'', features = [''Image input'', ''Web search'']\<rparr>"
  by (simp add: full_item_def extract_item_def trim_def is_white_space_def)

lemma extract_bare_item: "extract_item bare_item = \<lparr>name = [], isBeta = None, features = []\<rparr>"
  by (simp add: bare_item_def extract_item_def)

text \<open>
  C6: whenever \<open>page.$$eval\<close> hands the matched list items to the callback, the
  extraction yields one entry per item, in order, whatever the items lack: the name is
  the trimmed text of the name label, the empty string when there is no label; a missing
  beta badge gives \<open>isBeta = null\<close>; no feature element gives the empty list.
\<close>

theorem extraction_degrades:
  assumes "eval_items p = Fulfilled items"
  shows "\<exists>ms. extract_models p = Fulfilled ms \<and> length ms = length items \<and>
           (\<forall>i<length items.
              name (ms ! i) = (case nameElement (items ! i) of None \<Rightarrow> [] | Some t \<Rightarrow> trim t)
            \<and> (betaBadge (items ! i) = None \<longrightarrow> isBeta (ms ! i) = None)
            \<and> (featureElements (items ! i) = [] \<longrightarrow> features (ms ! i) = []))"
  using assms
  by (auto simp: extract_models_def extract_items_def extract_item_def split: option.splits)

theorem extraction_degrades_witness:
  "eval_items (smooth_run [bare_item, full_item]) = Fulfilled [bare_item, full_item]
   \<and> extract_models (smooth_run [bare_item, full_item]) =
       Fulfilled [\<lparr>name = [], isBeta = None, features = []\<rparr>,
                  \<lparr>name = ''GPT-Model-X'', isBeta = Some ''Beta'',
                   features = [''Image input'', ''Web search'']\<rparr>]"
  using extraction_degrades [of "smooth_run [bare_item, full_item]" "[bare_item, full_item]"]
  by (simp add: smooth_run_def extract_models_def extract_items_def extract_full_item
        extract_bare_item)

text \<open>
  C7 (as stated, refuted): the list has been extracted, the close button times out and
  the Escape key press fails; the operation returns a failure object with no models.
\<close>

theorem escape_failure_counterexample:
  "extract_models stuck_modal_run = Fulfilled [gpt_model_x]
   \<and> snd (navigateToDuckAI True no_browser stuck_modal_run) =
       Fulfilled \<lparr>success = False, message = ''Error: Target closed'',
                  error = Some ''Target closed'', models = []\<rparr>"
  by (simp add: stuck_modal_run_def smooth_run_def navigateToDuckAI_def try_body_def
        acquire_browser_def no_browser_def visit_site_def open_dropdown_def extract_models_def
        extract_items_def extract_full_item gpt_model_x_def close_modal_def catch_false_def)

text \<open>
  C7 (amended): once the entries are captured, a close button that works ends the
  operation in success with the captured entries; when the click or the wait for the
  modal to hide fails, Escape is pressed instead, and the operation succeeds with the
  captured entries if that key press goes through; if the key press fails too, nothing
  is raised to the caller, but the operation returns a failure object carrying the key
  press's error and an empty list of models.
\<close>

theorem dismiss_fallback:
  assumes "acquire_browser g p = (g1, Fulfilled ())" and "globalPage g1"
    and "visit_site p = Fulfilled ()" and "open_dropdown p = Fulfilled ()"
    and "extract_models p = Fulfilled ms"
  shows "navigateToDuckAI True g p =
           (g1, Fulfilled
             (if close_control_ok p then
                \<lparr>success = True,
                 message = ''Successfully extracted '' @ show_nat (length ms) @ '' free models!'',
                 error = None, models = ms\<rparr>
              else (case press_escape p of
                      Fulfilled _ \<Rightarrow>
                        \<lparr>success = True,
                         message = ''Successfully extracted '' @ show_nat (length ms) @ '' free models!'',
                         error = None, models = ms\<rparr>
                    | Rejected e \<Rightarrow>
                        \<lparr>success = False, message = ''Error: '' @ e, error = Some e, models = []\<rparr>)))"
  using assms
  by (simp add: navigateToDuckAI_def try_body_def close_modal_cases split: settled.splits)

theorem dismiss_fallback_witness:
  "acquire_browser no_browser slow_modal_run =
     (\<lparr>globalBrowser = True, globalContext = True, globalPage = True\<rparr>, Fulfilled ())
   \<and> visit_site slow_modal_run = Fulfilled ()
   \<and> open_dropdown slow_modal_run = Fulfilled ()
   \<and> extract_models slow_modal_run = Fulfilled [gpt_model_x]
   \<and> \<not> close_control_ok slow_modal_run
   \<and> press_escape slow_modal_run = Fulfilled ()
   \<and> snd (navigateToDuckAI True no_browser slow_modal_run) =
       Fulfilled \<lparr>success = True,
                  message = ''Successfully extracted '' @ show_nat (length [gpt_model_x]) @ '' free models!'',
                  error = None, models = [gpt_model_x]\<rparr>"
proof -
  have a: "acquire_browser no_browser slow_modal_run =
     (\<lparr>globalBrowser = True, globalContext = True, globalPage = True\<rparr>, Fulfilled ())"
    by (simp add: slow_modal_run_def smooth_run_def acquire_browser_def no_browser_def)
  have v: "visit_site slow_modal_run = Fulfilled ()"
    by (simp add: slow_modal_run_def smooth_run_def visit_site_def catch_false_def)
  have d: "open_dropdown slow_modal_run = Fulfilled ()"
    by (simp add: slow_modal_run_def smooth_run_def open_dropdown_def catch_false_def)
  have x: "extract_models slow_modal_run = Fulfilled [gpt_model_x]"
    by (simp add: slow_modal_run_def smooth_run_def extract_models_def extract_items_def
          extract_full_item gpt_model_x_def)
  have k: "\<not> close_control_ok slow_modal_run" and e: "press_escape slow_modal_run = Fulfilled ()"
    by (simp_all add: slow_modal_run_def smooth_run_def close_control_ok_def)
  from dismiss_fallback [OF a _ v d x] k e a v d x show ?thesis
    by simp
qed


section \<open>The suspended calls and the fetch guard\<close>

lemma resume_suspended_guard:
  "ensure_resume c u pc x st = (st', Suspended pc') \<Longrightarrow> fetchingModelsFor st' = fetchingModelsFor st"
  by (auto simp: ensure_resume_def ensure_catch_def ensure_finally_def emit_def
      split: ensure_pc.splits settlement.splits settled.splits if_splits)

lemma resume_returned_guard:
  "ensure_resume c u pc x st = (st', Returned r) \<Longrightarrow> fetchingModelsFor st' = fetchingModelsFor st - {u}"
  by (auto simp: ensure_resume_def ensure_catch_def ensure_finally_def emit_def
      split: ensure_pc.splits settlement.splits settled.splits if_splits)

lemma resume_models_store:
  "ensure_resume c u pc x st = (st', status) \<Longrightarrow> userModelsStore st' \<noteq> userModelsStore st \<Longrightarrow>
     \<exists>mid result. pc = AwaitNavigate mid \<and> x = NavigateSettled (Fulfilled result) \<and> success result"
  by (auto simp: ensure_resume_def ensure_catch_def ensure_finally_def emit_def
      split: ensure_pc.splits settlement.splits settled.splits if_splits)

lemma drop_nth_split:
  assumes "i < length xs"
  shows "xs = take i xs @ xs ! i # drop (Suc i) xs"
  using assms by (simp add: id_take_nth_drop)

lemma drop_nth_distinct:
  assumes "distinct xs" and "i < length xs"
  shows "distinct (drop_nth i xs)" and "set (drop_nth i xs) = set xs - {xs ! i}"
proof -
  have "distinct (take i xs @ xs ! i # drop (Suc i) xs)"
    using assms drop_nth_split [of i xs] by simp
  then have d: "distinct (take i xs @ drop (Suc i) xs)"
    and n: "xs ! i \<notin> set (take i xs @ drop (Suc i) xs)"
    by auto
  show "distinct (drop_nth i xs)"
    using d by (simp add: drop_nth_def)
  have "set xs = insert (xs ! i) (set (take i xs @ drop (Suc i) xs))"
    using arg_cong [OF drop_nth_split [OF assms(2)], of set] by simp
  then show "set (drop_nth i xs) = set xs - {xs ! i}"
    using n by (auto simp: drop_nth_def)
qed

lemma drop_nth_map: "map f (drop_nth i xs) = drop_nth i (map f xs)"
  by (simp add: drop_nth_def take_map drop_map)

lemma guard_tracks_call:
  assumes "guard_tracks s"
  shows "guard_tracks (sys_step s (Call c u))"
proof (cases "cached (bot s) u \<or> u \<in> fetchingModelsFor (bot s)")
  case True
  then show ?thesis
    using assms by (auto simp: guard_tracks_def ensure_enter_def)
next
  case False
  then show ?thesis
    using assms by (auto simp: guard_tracks_def ensure_enter_def emit_def task_user_def)
qed

lemma guard_tracks_settle:
  assumes "guard_tracks s"
  shows "guard_tracks (sys_step s (Settle i x))"
proof (cases "i < length (running s)")
  case False
  then show ?thesis using assms by simp
next
  case True
  obtain c u pc where t: "running s ! i = (c, u, pc)"
    by (cases "running s ! i") auto
  obtain b status where r: "ensure_resume c u pc x (bot s) = (b, status)"
    by (cases "ensure_resume c u pc x (bot s)") auto
  have ui: "map task_user (running s) ! i = u"
    using True t by (simp add: task_user_def)
  show ?thesis
  proof (cases status)
    case (Suspended pc')
    have "fetchingModelsFor b = fetchingModelsFor (bot s)"
      using r Suspended resume_suspended_guard by blast
    moreover have "map task_user ((running s)[i := (c, u, pc')]) = map task_user (running s)"
      using True ui by (simp add: map_update task_user_def list_update_same_conv)
    ultimately show ?thesis
      using assms True t r Suspended by (simp add: guard_tracks_def)
  next
    case (Returned res)
    have "fetchingModelsFor b = fetchingModelsFor (bot s) - {u}"
      using r Returned resume_returned_guard by blast
    moreover have "distinct (drop_nth i (map task_user (running s)))"
      and "set (drop_nth i (map task_user (running s))) = set (map task_user (running s)) - {u}"
      using drop_nth_distinct [of "map task_user (running s)" i] assms True ui
      by (simp_all add: guard_tracks_def)
    ultimately show ?thesis
      using assms True t r Returned by (simp add: guard_tracks_def drop_nth_map)
  qed
qed

lemma guard_tracks_step: "guard_tracks s \<Longrightarrow> guard_tracks (sys_step s e)"
proof (cases e)
  case (Call c u)
  assume "guard_tracks s"
  then show ?thesis using Call guard_tracks_call by simp
next
  case (Settle i x)
  assume "guard_tracks s"
  then show ?thesis using Settle guard_tracks_settle by simp
next
  case (StoreModels u ms)
  assume "guard_tracks s"
  then show ?thesis using StoreModels by (simp add: guard_tracks_def)
qed

lemma guard_tracks_run: "guard_tracks s \<Longrightarrow> guard_tracks (run s es)"
  by (induction es arbitrary: s) (simp_all add: guard_tracks_step)

lemma guard_tracks_initial: "guard_tracks initial_system"
  by (simp add: guard_tracks_def initial_system_def initial_bot_def)

lemma guard_tracks_reachable: "guard_tracks (run initial_system es)"
  by (simp add: guard_tracks_run guard_tracks_initial)


lemma resume_reply:
  "ensure_resume c u AwaitReply (ReplySettled x) st =
     (case x of Fulfilled mid \<Rightarrow> (emit CallNavigateToDuckAI st, Suspended (AwaitNavigate mid))
              | Rejected e \<Rightarrow> ensure_catch u e st)"
  by (simp add: ensure_resume_def split: settled.splits)

lemma resume_navigate:
  "ensure_resume c u (AwaitNavigate mid) (NavigateSettled x) st =
     (case x of
        Fulfilled result \<Rightarrow>
          (if success result then
             (emit (EditMessageText (chat c) mid
                      (emoji_check @ '' Successfully loaded '' @ show_nat (length (models result))
                       @ '' models!'') False NoMarkup)
                (st\<lparr>userModelsStore := (userModelsStore st)(u \<mapsto> models result)\<rparr>),
              Suspended (AwaitEditLoaded mid (models result)))
           else
             (emit (EditMessageText (chat c) mid
                      (emoji_cross @ '' Failed to load models: '' @ message result) False NoMarkup) st,
              Suspended (AwaitEditFailed mid (message result))))
      | Rejected e \<Rightarrow> ensure_catch u e st)"
  by (simp add: ensure_resume_def split: settled.splits)

lemma resume_edit_loaded:
  "ensure_resume c u (AwaitEditLoaded mid ms) (EditSettled x) st =
     (case x of Fulfilled _ \<Rightarrow> ensure_finally u (Loaded ms) (emit (SetTimeoutDelete (chat c) mid) st)
              | Rejected e \<Rightarrow> ensure_catch u e st)"
  by (simp add: ensure_resume_def split: settled.splits)

lemma resume_edit_failed:
  "ensure_resume c u (AwaitEditFailed mid m) (EditSettled x) st =
     (case x of Fulfilled _ \<Rightarrow> ensure_finally u (Failed m) st
              | Rejected e \<Rightarrow> ensure_catch u e st)"
  by (simp add: ensure_resume_def split: settled.splits)

lemmas resume_simps = resume_reply resume_navigate resume_edit_loaded resume_edit_failed

lemma ensure_fetch_returns:
  assumes "\<not> cached st u" and "u \<notin> fetchingModelsFor st"
  shows "\<exists>st' g' r. ensureModelsLoaded c u env (st, g) = ((st', g'), Some r)
           \<and> fetchingModelsFor st' = fetchingModelsFor st
           \<and> r \<noteq> AlreadyLoaded \<and> r \<noteq> Busy"
  using assms
  by (auto simp: ensureModelsLoaded_def ensure_enter_def resume_simps ensure_catch_def
        ensure_finally_def emit_def split: settled.splits prod.splits)

lemma ensure_always_returns:
  "\<exists>st' g' r. ensureModelsLoaded c u env (st, g) = ((st', g'), Some r)"
  by (auto simp: ensureModelsLoaded_def ensure_enter_def resume_simps ensure_catch_def
        ensure_finally_def emit_def split: settled.splits prod.splits)

lemma ensure_cached:
  "cached st u \<Longrightarrow> ensureModelsLoaded c u env (st, g) = ((st, g), Some AlreadyLoaded)"
  by (simp add: ensureModelsLoaded_def ensure_enter_def)

lemma ensure_loaded_stores:
  assumes "ensureModelsLoaded c u env (st, g) = ((st', g'), Some (Loaded ms))"
  shows "userModelsStore st' u = Some ms"
  using assms
  by (auto simp: ensureModelsLoaded_def ensure_enter_def resume_simps ensure_catch_def
        ensure_finally_def emit_def split: settled.splits prod.splits if_splits)


section \<open>The fetch guard\<close>

lemma run_one_call:
  "run initial_system [Call alice 7] =
     \<lparr>bot = initial_bot\<lparr>fetchingModelsFor := {7},
             outbox := [SendMessage 70 (emoji_cycle @ '' Connecting to server...'') NoMarkup]\<rparr>,
      running = [(alice, 7, AwaitReply)], returned = []\<rparr>"
  by (simp add: initial_system_def initial_bot_def ensure_enter_def cached_def emit_def alice_def)

lemma run_first_call_at_edit:
  "run initial_system first_call_at_edit =
     \<lparr>bot = initial_bot\<lparr>userModelsStore := [7 \<mapsto> [gpt_model_x]], fetchingModelsFor := {7},
             outbox := [SendMessage 70 (emoji_cycle @ '' Connecting to server...'') NoMarkup,
                        CallNavigateToDuckAI,
                        EditMessageText 70 501
                          (emoji_check @ '' Successfully loaded '' @ show_nat 1 @ '' models!'')
                          False NoMarkup]\<rparr>,
      running = [(alice, 7, AwaitEditLoaded 501 [gpt_model_x])], returned = []\<rparr>"
  by (simp add: first_call_at_edit_def initial_system_def initial_bot_def ensure_enter_def
        cached_def emit_def alice_def resume_simps)

text \<open>
  C1 (as stated, refuted): user 7 is in the fetch guard, and a further call for user 7
  returns \<open>AlreadyLoaded\<close>, not \<open>Busy\<close>.
\<close>

theorem guard_member_not_busy_counterexample:
  "7 \<in> fetchingModelsFor (bot (run initial_system first_call_at_edit))
   \<and> snd (ensure_enter alice 7 (bot (run initial_system first_call_at_edit))) = Returned AlreadyLoaded
   \<and> snd (ensure_enter alice 7 (bot (run initial_system first_call_at_edit))) \<noteq> Returned Busy"
  by (simp add: run_first_call_at_edit ensure_enter_def cached_def initial_bot_def)

text \<open>
  C1 (amended): \<open>ensureModelsLoaded\<close> returns \<open>Busy\<close> exactly when the user has no
  non-empty cached catalog and is in the fetch guard; it does so at once, with no call
  made and no store changed; another user in the guard makes no difference; and in every
  state the interleaved calls can reach no user has two calls past the guard, a further
  call for a user with a call in flight and no cached catalog returning \<open>Busy\<close>.
\<close>

theorem fetch_guard_per_user:
  "(snd (ensure_enter c u st) = Returned Busy \<longleftrightarrow> u \<in> fetchingModelsFor st \<and> \<not> cached st u)
   \<and> (snd (ensure_enter c u st) = Returned Busy \<longrightarrow> fst (ensure_enter c u st) = st)
   \<and> (v \<noteq> u \<longrightarrow>
        (snd (ensure_enter c u (st\<lparr>fetchingModelsFor := insert v (fetchingModelsFor st)\<rparr>)) = Returned Busy
         \<longleftrightarrow> snd (ensure_enter c u st) = Returned Busy))
   \<and> distinct (map task_user (running (run initial_system es)))
   \<and> (u \<in> set (map task_user (running (run initial_system es)))
        \<and> \<not> cached (bot (run initial_system es)) u \<longrightarrow>
        sys_step (run initial_system es) (Call c u) =
          (run initial_system es)\<lparr>returned := returned (run initial_system es) @ [(u, Busy)]\<rparr>)"
proof -
  have a: "snd (ensure_enter c u st) = Returned Busy \<longleftrightarrow> u \<in> fetchingModelsFor st \<and> \<not> cached st u"
    by (simp add: ensure_enter_def)
  have b: "snd (ensure_enter c u st) = Returned Busy \<longrightarrow> fst (ensure_enter c u st) = st"
    by (simp add: ensure_enter_def)
  have c: "v \<noteq> u \<longrightarrow>
        (snd (ensure_enter c u (st\<lparr>fetchingModelsFor := insert v (fetchingModelsFor st)\<rparr>)) = Returned Busy
         \<longleftrightarrow> snd (ensure_enter c u st) = Returned Busy)"
    by (simp add: ensure_enter_def cached_def)
  have inv: "guard_tracks (run initial_system es)"
    by (rule guard_tracks_reachable)
  then have d: "distinct (map task_user (running (run initial_system es)))"
    by (simp add: guard_tracks_def)
  have e: "u \<in> set (map task_user (running (run initial_system es)))
        \<and> \<not> cached (bot (run initial_system es)) u \<longrightarrow>
        sys_step (run initial_system es) (Call c u) =
          (run initial_system es)\<lparr>returned := returned (run initial_system es) @ [(u, Busy)]\<rparr>"
    using inv by (simp add: guard_tracks_def ensure_enter_def)
  from a b c d e show ?thesis by blast
qed

theorem fetch_guard_per_user_witness:
  "snd (ensure_enter alice 7 (bot (run initial_system [Call alice 7]))) = Returned Busy
   \<and> fst (ensure_enter alice 7 (bot (run initial_system [Call alice 7]))) = bot (run initial_system [Call alice 7])
   \<and> (8::int) \<noteq> 7
   \<and> snd (ensure_enter alice 7 ((bot (run initial_system [Call alice 7]))
            \<lparr>fetchingModelsFor := insert 8 (fetchingModelsFor (bot (run initial_system [Call alice 7])))\<rparr>))
       = Returned Busy
   \<and> 7 \<in> set (map task_user (running (run initial_system [Call alice 7])))
   \<and> \<not> cached (bot (run initial_system [Call alice 7])) 7
   \<and> returned (sys_step (run initial_system [Call alice 7]) (Call alice 7)) = [(7, Busy)]"
  using fetch_guard_per_user [of alice 7 "bot (run initial_system [Call alice 7])" 8 "[Call alice 7]"]
  unfolding run_one_call
  by (simp add: ensure_enter_def task_user_def cached_def initial_bot_def)


section \<open>The pipeline result and the catalog store\<close>

lemma navigate_of_try_body:
  "try_body True g p = (g', Rejected e) \<Longrightarrow>
     navigateToDuckAI True g p =
       (g', Fulfilled \<lparr>success = False, message = ''Error: '' @ e, error = Some e, models = []\<rparr>)"
  "try_body True g p = (g', Fulfilled ms) \<Longrightarrow>
     navigateToDuckAI True g p =
       (g', Fulfilled \<lparr>success = True,
              message = ''Successfully extracted '' @ show_nat (length ms) @ '' free models!'',
              error = None, models = ms\<rparr>)"
  by (simp_all add: navigateToDuckAI_def)

lemma challenge_try_body:
  "try_body True no_browser challenge_run = (all_handles, Rejected captcha_message)"
  by (simp add: challenge_run_def smooth_run_def try_body_def acquire_browser_def no_browser_def
        visit_site_def catch_false_def all_handles_def)

lemma challenge_navigate:
  "navigateToDuckAI True no_browser challenge_run =
     (all_handles, Fulfilled \<lparr>success = False, message = ''Error: '' @ captcha_message,
                     error = Some captcha_message, models = []\<rparr>)"
  by (rule navigate_of_try_body(1) [OF challenge_try_body])

lemma smooth_try_body:
  "try_body True no_browser (smooth_run [full_item]) = (all_handles, Fulfilled [gpt_model_x])"
  by (simp add: smooth_run_def try_body_def acquire_browser_def no_browser_def visit_site_def
        open_dropdown_def catch_false_def extract_models_def extract_items_def extract_full_item
        gpt_model_x_def close_modal_def all_handles_def)

lemma smooth_navigate:
  "navigateToDuckAI True no_browser (smooth_run [full_item]) =
     (all_handles, Fulfilled \<lparr>success = True,
              message = ''Successfully extracted '' @ show_nat (length [gpt_model_x]) @ '' free models!'',
              error = None, models = [gpt_model_x]\<rparr>)"
  by (rule navigate_of_try_body(2) [OF smooth_try_body])

lemma ensure_failed_fetch:
  assumes "\<not> cached st u" and "u \<notin> fetchingModelsFor st"
    and "reply_settles env = Fulfilled mid"
    and "navigateToDuckAI True g (page env) = (g', Fulfilled result)" and "\<not> success result"
  shows "ensureModelsLoaded c u env (st, g) =
           ((st\<lparr>outbox := outbox st @
                   [SendMessage (chat c) (emoji_cycle @ '' Connecting to server...'') NoMarkup,
                    CallNavigateToDuckAI,
                    EditMessageText (chat c) mid
                      (emoji_cross @ '' Failed to load models: '' @ message result) False NoMarkup]
                   @ (case edit_settles env of
                        Fulfilled _ \<Rightarrow> []
                      | Rejected e2 \<Rightarrow> [ConsoleError ''Error fetching models:''])\<rparr>, g'),
            Some (Failed (case edit_settles env of
                            Fulfilled _ \<Rightarrow> message result
                          | Rejected e2 \<Rightarrow> e2)))"
  using assms
  by (auto simp: ensureModelsLoaded_def ensure_enter_def resume_simps ensure_catch_def
        ensure_finally_def emit_def split: settled.splits)

text \<open>
  C4: when a call of \<open>ensureModelsLoaded\<close> has entered the fetching phase and sent its
  status message, and any step of the pipeline fails with an error \<open>e\<close> (the challenge
  check and every timeout included), \<open>navigateToDuckAI\<close> returns a failure object
  with the message \<open>Error: e\<close> and an empty list of models, and
  \<open>ensureModelsLoaded\<close> returns a failed result with a reason (that message, or the
  error of the status edit when that edit fails) and leaves the catalog store as it was.
\<close>

theorem pipeline_failure_becomes_failed_result:
  assumes "\<not> cached st u" and "u \<notin> fetchingModelsFor st"
    and "reply_settles env = Fulfilled mid"
    and "try_body True g (page env) = (g', Rejected e)"
  shows "navigateToDuckAI True g (page env) =
           (g', Fulfilled \<lparr>success = False, message = ''Error: '' @ e, error = Some e, models = []\<rparr>)
         \<and> (\<exists>st'. ensureModelsLoaded c u env (st, g) =
                     ((st', g'), Some (Failed (case edit_settles env of
                                                 Fulfilled _ \<Rightarrow> ''Error: '' @ e
                                               | Rejected e2 \<Rightarrow> e2)))
                   \<and> userModelsStore st' = userModelsStore st
                   \<and> u \<notin> fetchingModelsFor st')"
proof -
  let ?failure = "\<lparr>success = False, message = ''Error: '' @ e, error = Some e, models = []\<rparr>"
  have nav: "navigateToDuckAI True g (page env) = (g', Fulfilled ?failure)"
    using assms(4) by (rule navigate_of_try_body(1))
  have "\<not> success ?failure" by simp
  note run = ensure_failed_fetch [OF assms(1-3) nav this, of c]
  let ?st' = "fst (fst (ensureModelsLoaded c u env (st, g)))"
  have "ensureModelsLoaded c u env (st, g) =
          ((?st', g'), Some (Failed (case edit_settles env of
                                      Fulfilled _ \<Rightarrow> ''Error: '' @ e
                                    | Rejected e2 \<Rightarrow> e2)))"
    unfolding run by (simp split: settled.splits)
  moreover have "userModelsStore ?st' = userModelsStore st"
    unfolding run by simp
  moreover have "u \<notin> fetchingModelsFor ?st'"
    unfolding run using assms(2) by simp
  ultimately show ?thesis
    using nav by blast
qed

theorem pipeline_failure_becomes_failed_result_witness:
  "\<not> cached initial_bot 7 \<and> 7 \<notin> fetchingModelsFor initial_bot
   \<and> reply_settles challenge_env = Fulfilled 501
   \<and> try_body True no_browser (page challenge_env) = (all_handles, Rejected captcha_message)
   \<and> snd (ensureModelsLoaded alice 7 challenge_env (initial_bot, no_browser)) =
       Some (Failed ''Error: CAPTCHA/Challenge detected. Cannot proceed in headless mode'')
   \<and> userModelsStore (fst (fst (ensureModelsLoaded alice 7 challenge_env (initial_bot, no_browser)))) 7 = None"
proof -
  have a: "\<not> cached initial_bot 7" and b: "7 \<notin> fetchingModelsFor initial_bot"
    by (simp_all add: cached_def initial_bot_def)
  have r: "reply_settles challenge_env = Fulfilled 501"
    by (simp add: challenge_env_def)
  have t: "try_body True no_browser (page challenge_env) = (all_handles, Rejected captcha_message)"
    by (simp add: challenge_env_def challenge_try_body)
  have s: "userModelsStore initial_bot 7 = None" and ed: "edit_settles challenge_env = Fulfilled ()"
    by (simp_all add: initial_bot_def challenge_env_def)
  from pipeline_failure_becomes_failed_result [OF a b r t, of alice] a b r t s ed show ?thesis
    by (auto simp: captcha_message_def)
qed


text \<open>
  C2: every return of a call that went past the guard removes its user from the fetch
  guard, whichever way the call ends; run on its own, a call that enters the fetching
  phase returns with the user out of the guard, so that the next call for that user is
  not answered \<open>Busy\<close>; and in every state the interleaved calls can reach, the guard
  holds exactly the users of the calls that are suspended between fetch start and
  return.
\<close>

theorem guard_released_on_every_exit:
  "(ensure_resume c0 u pc x st0 = (st1, Returned r0) \<longrightarrow> u \<notin> fetchingModelsFor st1)
   \<and> (\<not> cached st u \<and> u \<notin> fetchingModelsFor st \<longrightarrow>
        (\<exists>st' g' r. ensureModelsLoaded c u env (st, g) = ((st', g'), Some r)
            \<and> u \<notin> fetchingModelsFor st'
            \<and> snd (ensure_enter c' u st') \<noteq> Returned Busy))
   \<and> fetchingModelsFor (bot (run initial_system es)) =
       set (map task_user (running (run initial_system es)))"
proof -
  have a: "ensure_resume c0 u pc x st0 = (st1, Returned r0) \<longrightarrow> u \<notin> fetchingModelsFor st1"
    using resume_returned_guard [of c0 u pc x st0 st1 r0] by auto
  have b: "\<not> cached st u \<and> u \<notin> fetchingModelsFor st \<longrightarrow>
        (\<exists>st' g' r. ensureModelsLoaded c u env (st, g) = ((st', g'), Some r)
            \<and> u \<notin> fetchingModelsFor st'
            \<and> snd (ensure_enter c' u st') \<noteq> Returned Busy)"
  proof
    assume h: "\<not> cached st u \<and> u \<notin> fetchingModelsFor st"
    then obtain st' g' r where
      run: "ensureModelsLoaded c u env (st, g) = ((st', g'), Some r)"
      and same: "fetchingModelsFor st' = fetchingModelsFor st"
      using ensure_fetch_returns [of st u c env g] by blast
    have out: "u \<notin> fetchingModelsFor st'"
      using h same by simp
    then have "snd (ensure_enter c' u st') \<noteq> Returned Busy"
      by (simp add: ensure_enter_def)
    with run out show "\<exists>st' g' r. ensureModelsLoaded c u env (st, g) = ((st', g'), Some r)
            \<and> u \<notin> fetchingModelsFor st'
            \<and> snd (ensure_enter c' u st') \<noteq> Returned Busy"
      by blast
  qed
  have c: "fetchingModelsFor (bot (run initial_system es)) =
       set (map task_user (running (run initial_system es)))"
    using guard_tracks_reachable [of es] by (simp add: guard_tracks_def)
  from a b c show ?thesis by blast
qed

lemma challenge_ensure:
  "ensureModelsLoaded alice 7 challenge_env (initial_bot, no_browser) =
     ((initial_bot\<lparr>outbox :=
          [SendMessage 70 (emoji_cycle @ '' Connecting to server...'') NoMarkup,
           CallNavigateToDuckAI,
           EditMessageText 70 501
             (emoji_cross @ '' Failed to load models: '' @ ''Error: '' @ captcha_message)
             False NoMarkup]\<rparr>, all_handles),
      Some (Failed (''Error: '' @ captcha_message)))"
proof -
  have "\<not> cached initial_bot 7" and "7 \<notin> fetchingModelsFor initial_bot"
    by (simp_all add: cached_def initial_bot_def)
  moreover have "reply_settles challenge_env = Fulfilled 501"
    by (simp add: challenge_env_def)
  moreover have "navigateToDuckAI True no_browser (page challenge_env) =
     (all_handles, Fulfilled \<lparr>success = False, message = ''Error: '' @ captcha_message,
                     error = Some captcha_message, models = []\<rparr>)"
    by (simp add: challenge_env_def challenge_navigate)
  ultimately show ?thesis
    using ensure_failed_fetch [where st = initial_bot and u = 7 and env = challenge_env and mid = 501
                                 and g = no_browser and g' = all_handles and c = alice]
    by (simp add: challenge_env_def initial_bot_def alice_def)
qed

theorem guard_released_on_every_exit_witness:
  "ensure_resume alice 7 (AwaitEditLoaded 501 [gpt_model_x]) (EditSettled (Rejected ''message to edit not found''))
       (bot (run initial_system first_call_at_edit))
     = ((bot (run initial_system first_call_at_edit))
          \<lparr>fetchingModelsFor := {},
            outbox := outbox (bot (run initial_system first_call_at_edit))
                        @ [ConsoleError ''Error fetching models:'']\<rparr>,
        Returned (Failed ''message to edit not found''))
   \<and> \<not> cached initial_bot 7 \<and> 7 \<notin> fetchingModelsFor initial_bot
   \<and> snd (ensureModelsLoaded alice 7 challenge_env (initial_bot, no_browser)) =
       Some (Failed ''Error: CAPTCHA/Challenge detected. Cannot proceed in headless mode'')
   \<and> 7 \<notin> fetchingModelsFor (fst (fst (ensureModelsLoaded alice 7 challenge_env (initial_bot, no_browser))))
   \<and> snd (ensure_enter alice 7 (fst (fst (ensureModelsLoaded alice 7 challenge_env (initial_bot, no_browser)))))
       = Suspended AwaitReply"
proof -
  let ?st0 = "bot (run initial_system first_call_at_edit)"
  let ?st1 = "?st0\<lparr>fetchingModelsFor := {},
                    outbox := outbox ?st0 @ [ConsoleError ''Error fetching models:'']\<rparr>"
  have step: "ensure_resume alice 7 (AwaitEditLoaded 501 [gpt_model_x])
                (EditSettled (Rejected ''message to edit not found'')) ?st0
              = (?st1, Returned (Failed ''message to edit not found''))"
    unfolding run_first_call_at_edit
    by (simp add: resume_simps ensure_catch_def ensure_finally_def emit_def initial_bot_def)
  have a: "\<not> cached initial_bot 7" and b: "7 \<notin> fetchingModelsFor initial_bot"
    by (simp_all add: cached_def initial_bot_def)
  note t = guard_released_on_every_exit
             [where ?c0.0 = alice and u = 7 and pc = "AwaitEditLoaded 501 [gpt_model_x]"
                and x = "EditSettled (Rejected ''message to edit not found'')"
                and ?st0.0 = ?st0 and ?st1.0 = ?st1 and ?r0.0 = "Failed ''message to edit not found''"
                and st = initial_bot and c = alice and env = challenge_env and g = no_browser
                and c' = alice and es = "[]"]
  have "7 \<notin> fetchingModelsFor ?st1"
    using t step by blast
  moreover have "snd (ensureModelsLoaded alice 7 challenge_env (initial_bot, no_browser)) =
       Some (Failed ''Error: CAPTCHA/Challenge detected. Cannot proceed in headless mode'')"
    by (simp add: challenge_ensure captcha_message_def)
  moreover have "7 \<notin> fetchingModelsFor (fst (fst (ensureModelsLoaded alice 7 challenge_env (initial_bot, no_browser))))"
    using t a b by auto
  moreover have "snd (ensure_enter alice 7 (fst (fst (ensureModelsLoaded alice 7 challenge_env (initial_bot, no_browser)))))
       = Suspended AwaitReply"
    unfolding challenge_ensure by (simp add: ensure_enter_def cached_def initial_bot_def)
  ultimately show ?thesis
    using step a b by simp
qed

text \<open>
  C3: with a non-empty catalog stored for the user, \<open>ensureModelsLoaded\<close> returns
  \<open>alreadyLoaded\<close> and leaves the stores, the list of outbound calls (no message, no
  \<open>navigateToDuckAI\<close>) and the browser globals as they were; this is the case after
  every call that returned a non-empty catalog as loaded.
\<close>

theorem cached_catalog_is_reused:
  "(cached st u \<longrightarrow> ensureModelsLoaded c u env (st, g) = ((st, g), Some AlreadyLoaded))
   \<and> (ensureModelsLoaded c u env (st, g) = ((st', g'), Some (Loaded ms)) \<and> ms \<noteq> [] \<longrightarrow>
        ensureModelsLoaded c' u env' (st', g') = ((st', g'), Some AlreadyLoaded))"
proof -
  have "cached st' u"
    if "ensureModelsLoaded c u env (st, g) = ((st', g'), Some (Loaded ms))" and "ms \<noteq> []"
    using ensure_loaded_stores [OF that(1)] that(2) by (simp add: cached_def)
  then show ?thesis
    using ensure_cached by blast
qed

lemma smooth_ensure:
  "ensureModelsLoaded alice 7 smooth_env (initial_bot, no_browser) =
     ((initial_bot\<lparr>userModelsStore := [7 \<mapsto> [gpt_model_x]],
          outbox :=
            [SendMessage 70 (emoji_cycle @ '' Connecting to server...'') NoMarkup,
             CallNavigateToDuckAI,
             EditMessageText 70 501
               (emoji_check @ '' Successfully loaded '' @ show_nat (length [gpt_model_x]) @ '' models!'')
               False NoMarkup,
             SetTimeoutDelete 70 501]\<rparr>, all_handles),
      Some (Loaded [gpt_model_x]))"
  by (simp add: ensureModelsLoaded_def ensure_enter_def cached_def initial_bot_def smooth_env_def
        resume_simps smooth_navigate emit_def ensure_finally_def alice_def)

theorem cached_catalog_is_reused_witness:
  "snd (ensureModelsLoaded alice 7 smooth_env (initial_bot, no_browser)) = Some (Loaded [gpt_model_x])
   \<and> [gpt_model_x] \<noteq> []
   \<and> cached (fst (fst (ensureModelsLoaded alice 7 smooth_env (initial_bot, no_browser)))) 7
   \<and> ensureModelsLoaded alice 7 challenge_env (fst (ensureModelsLoaded alice 7 smooth_env (initial_bot, no_browser)))
       = (fst (ensureModelsLoaded alice 7 smooth_env (initial_bot, no_browser)), Some AlreadyLoaded)
   \<and> ensureModelsLoaded alice 7 smooth_env (fst (ensureModelsLoaded alice 7 smooth_env (initial_bot, no_browser)))
       = (fst (ensureModelsLoaded alice 7 smooth_env (initial_bot, no_browser)), Some AlreadyLoaded)"
proof -
  let ?st' = "initial_bot\<lparr>userModelsStore := [7 \<mapsto> [gpt_model_x]],
          outbox :=
            [SendMessage 70 (emoji_cycle @ '' Connecting to server...'') NoMarkup,
             CallNavigateToDuckAI,
             EditMessageText 70 501
               (emoji_check @ '' Successfully loaded '' @ show_nat (length [gpt_model_x]) @ '' models!'')
               False NoMarkup,
             SetTimeoutDelete 70 501]\<rparr>"
  have c: "cached ?st' 7"
    by (simp add: cached_def)
  note after_load = cached_catalog_is_reused
             [where st = initial_bot and u = 7 and c = alice and env = smooth_env and g = no_browser
                and st' = ?st' and g' = all_handles and ms = "[gpt_model_x]"
                and c' = alice and env' = challenge_env]
  note when_cached = cached_catalog_is_reused
             [where st = ?st' and u = 7 and c = alice and env = smooth_env and g = all_handles]
  have "ensureModelsLoaded alice 7 challenge_env (?st', all_handles) = ((?st', all_handles), Some AlreadyLoaded)"
    using after_load smooth_ensure by blast
  moreover have "ensureModelsLoaded alice 7 smooth_env (?st', all_handles) = ((?st', all_handles), Some AlreadyLoaded)"
    using when_cached c by blast
  ultimately show ?thesis
    using c by (simp add: smooth_ensure)
qed


lemma accept_catch_store: "userModelsStore (fst (accept_catch c env st)) = userModelsStore st"
  by (simp add: accept_catch_def emit_def Let_def split: settled.splits)

lemma open_catch_store: "userModelsStore (fst (open_catch c env st)) = userModelsStore st"
  by (simp add: open_catch_def emit_def Let_def split: settled.splits)

lemma accept_resume_store:
  assumes "\<not> reports_success nav"
  shows "userModelsStore (fst (accept_resume c env nav st)) = userModelsStore st"
proof (cases nav)
  case (Rejected e)
  then show ?thesis
    by (simp add: accept_resume_def accept_catch_store)
next
  case (Fulfilled result)
  then have "\<not> success result"
    using assms by (simp add: reports_success_def)
  then show ?thesis
    using Fulfilled
    by (simp add: accept_resume_def accept_catch_store emit_def Let_def split: settled.splits)
qed

lemma open_resume_store:
  assumes "\<not> reports_success nav"
  shows "userModelsStore (fst (open_resume c env nav st)) = userModelsStore st"
proof (cases nav)
  case (Rejected e)
  then show ?thesis
    by (simp add: open_resume_def open_catch_store)
next
  case (Fulfilled result)
  then have "\<not> success result"
    using assms by (simp add: reports_success_def)
  then show ?thesis
    using Fulfilled
    by (simp add: open_resume_def open_catch_store emit_def Let_def split: settled.splits)
qed

lemma ensure_store_on_failure:
  assumes "\<not> reports_success (snd (navigateToDuckAI True g (page env)))"
  shows "userModelsStore (fst (fst (ensureModelsLoaded c u env (st, g)))) = userModelsStore st"
  using assms
  by (auto simp: ensureModelsLoaded_def ensure_enter_def resume_simps ensure_catch_def
        ensure_finally_def emit_def reports_success_def split: settled.splits prod.splits)

lemma accept_store_on_failure:
  assumes "\<not> reports_success (snd (navigateToDuckAI True g (accept_page env)))"
  shows "userModelsStore (fst (fst (acceptPolicyHandler c env (st, g)))) = userModelsStore st"
proof -
  obtain g1 nav where n: "navigateToDuckAI True g (accept_page env) = (g1, nav)"
    by (cases "navigateToDuckAI True g (accept_page env)") auto
  then have f: "\<not> reports_success nav"
    using assms by simp
  have r: "accept_resume c env nav s = (s', r') \<Longrightarrow> userModelsStore s' = userModelsStore s" for s s' r'
    using accept_resume_store [OF f, of c env s] by simp
  have k: "accept_catch c env s = (s', r') \<Longrightarrow> userModelsStore s' = userModelsStore s" for s s' r'
    using accept_catch_store [of c env s] by simp
  show ?thesis
    using n
    by (auto simp: acceptPolicyHandler_def Let_def emit_def split: settled.splits prod.splits
          dest!: r k)
qed

lemma open_store_on_failure:
  assumes "\<not> reports_success (snd (navigateToDuckAI True g (open_page env)))"
  shows "userModelsStore (fst (fst (openHandler c env (st, g)))) = userModelsStore st"
proof -
  obtain g1 nav where n: "navigateToDuckAI True g (open_page env) = (g1, nav)"
    by (cases "navigateToDuckAI True g (open_page env)") auto
  then have f: "\<not> reports_success nav"
    using assms by simp
  have r: "open_resume c env nav s = (s', r') \<Longrightarrow> userModelsStore s' = userModelsStore s" for s s' r'
    using open_resume_store [OF f, of c env s] by simp
  have k: "open_catch c env s = (s', r') \<Longrightarrow> userModelsStore s' = userModelsStore s" for s s' r'
    using open_catch_store [of c env s] by simp
  show ?thesis
    using n
    by (auto simp: openHandler_def Let_def emit_def split: settled.splits prod.splits
          dest!: r k)
qed


lemma resume_store_on_failure:
  assumes "\<not> reports_success nav"
  shows "userModelsStore (fst (ensure_resume c u pc (NavigateSettled nav) st)) = userModelsStore st"
proof (rule ccontr)
  assume changed: "userModelsStore (fst (ensure_resume c u pc (NavigateSettled nav) st)) \<noteq> userModelsStore st"
  have "ensure_resume c u pc (NavigateSettled nav) st =
          (fst (ensure_resume c u pc (NavigateSettled nav) st),
           snd (ensure_resume c u pc (NavigateSettled nav) st))"
    by simp
  from resume_models_store [OF this changed] obtain result
    where "nav = Fulfilled result" and "success result"
    by auto
  then show False
    using assms by (simp add: reports_success_def)
qed

text \<open>
  C9: in \<open>ensureModelsLoaded\<close>, \<open>acceptPolicyHandler\<close> and \<open>openHandler\<close> alike, a
  run whose \<open>navigateToDuckAI()\<close> does not report success leaves the whole catalog
  store as it was, and so does the code that consumes the settled result, whatever
  non-success it is handed (a failure object or a rejection).
\<close>

theorem failed_fetch_keeps_catalog:
  "(\<not> reports_success (snd (navigateToDuckAI True g (page env1))) \<longrightarrow>
      userModelsStore (fst (fst (ensureModelsLoaded c u env1 (st, g)))) = userModelsStore st)
   \<and> (\<not> reports_success (snd (navigateToDuckAI True g (accept_page env2))) \<longrightarrow>
      userModelsStore (fst (fst (acceptPolicyHandler c env2 (st, g)))) = userModelsStore st)
   \<and> (\<not> reports_success (snd (navigateToDuckAI True g (open_page env3))) \<longrightarrow>
      userModelsStore (fst (fst (openHandler c env3 (st, g)))) = userModelsStore st)
   \<and> (\<not> reports_success nav \<longrightarrow>
      userModelsStore (fst (ensure_resume c u pc (NavigateSettled nav) st)) = userModelsStore st
      \<and> userModelsStore (fst (accept_resume c env2 nav st)) = userModelsStore st
      \<and> userModelsStore (fst (open_resume c env3 nav st)) = userModelsStore st)"
  using ensure_store_on_failure [of g env1 c u st] accept_store_on_failure [of g env2 c st]
    open_store_on_failure [of g env3 c st] resume_store_on_failure [of nav c u pc st]
    accept_resume_store [of nav c env2 st] open_resume_store [of nav c env3 st]
  by blast

theorem failed_fetch_keeps_catalog_witness:
  "\<not> reports_success (snd (navigateToDuckAI True no_browser challenge_run))
   \<and> \<not> reports_success (Rejected ''browser has been closed'')
   \<and> userModelsStore stocked_bot = [7 \<mapsto> [], 8 \<mapsto> [model_a, model_b]]
   \<and> userModelsStore (fst (fst (ensureModelsLoaded alice 7 challenge_env (stocked_bot, no_browser))))
       = [7 \<mapsto> [], 8 \<mapsto> [model_a, model_b]]
   \<and> userModelsStore (fst (fst (acceptPolicyHandler bob challenge_accept (stocked_bot, no_browser))))
       = [7 \<mapsto> [], 8 \<mapsto> [model_a, model_b]]
   \<and> userModelsStore (fst (fst (openHandler bob challenge_open (stocked_bot, no_browser))))
       = [7 \<mapsto> [], 8 \<mapsto> [model_a, model_b]]
   \<and> userModelsStore (fst (ensure_resume alice 7 (AwaitNavigate 501)
                              (NavigateSettled (Rejected ''browser has been closed'')) stocked_bot))
       = [7 \<mapsto> [], 8 \<mapsto> [model_a, model_b]]"
proof -
  have f: "\<not> reports_success (snd (navigateToDuckAI True no_browser challenge_run))"
    by (simp add: challenge_navigate reports_success_def)
  have r: "\<not> reports_success (Rejected ''browser has been closed'')"
    by (simp add: reports_success_def)
  have s: "userModelsStore stocked_bot = [7 \<mapsto> [], 8 \<mapsto> [model_a, model_b]]"
    by (simp add: stocked_bot_def initial_bot_def)
  have p: "page challenge_env = challenge_run" "accept_page challenge_accept = challenge_run"
    "open_page challenge_open = challenge_run"
    by (simp_all add: challenge_env_def challenge_accept_def challenge_open_def)
  note for_alice = failed_fetch_keeps_catalog
    [where g = no_browser and ?env1.0 = challenge_env and c = alice and u = 7 and st = stocked_bot
       and nav = "Rejected ''browser has been closed''" and pc = "AwaitNavigate 501"]
  note for_bob = failed_fetch_keeps_catalog
    [where g = no_browser and ?env2.0 = challenge_accept and ?env3.0 = challenge_open and c = bob
       and st = stocked_bot]
  show ?thesis
    using for_alice for_bob f r s p by simp
qed


section \<open>The menu\<close>

lemma find_absent: "N \<notin> name ` set ms \<Longrightarrow> find (\<lambda>m. name m = N) ms = None"
  by (induction ms) auto

lemma find_first:
  assumes "i < length ms" and "\<forall>j<i. name (ms ! j) \<noteq> name (ms ! i)"
  shows "find (\<lambda>m. name m = name (ms ! i)) ms = Some (ms ! i)"
  using assms
proof (induction ms arbitrary: i)
  case Nil
  then show ?case by simp
next
  case (Cons m ms)
  show ?case
  proof (cases i)
    case 0
    then show ?thesis by simp
  next
    case (Suc k)
    have "name m \<noteq> name ((m # ms) ! i)"
      using Cons.prems(2) Suc by auto
    moreover have "find (\<lambda>x. name x = name (ms ! k)) ms = Some (ms ! k)"
    proof (rule Cons.IH)
      show "k < length ms" using Cons.prems(1) Suc by simp
      show "\<forall>j<k. name (ms ! j) \<noteq> name (ms ! k)"
      proof (intro allI impI)
        fix j assume "j < k"
        then have "Suc j < i" using Suc by simp
        then have "name ((m # ms) ! Suc j) \<noteq> name ((m # ms) ! i)"
          using Cons.prems(2) by blast
        then show "name (ms ! j) \<noteq> name (ms ! k)" using Suc by simp
      qed
    qed
    ultimately show ?thesis using Suc by simp
  qed
qed

text \<open>
  C10: \<open>handleModelSelection\<close> stores whatever name it is handed as the user's
  selection, with no look at the catalog, while \<open>viewModelDetails\<close> with a name that
  no entry of the user's stored catalog bears only answers the callback query with
  "Model not found" and changes no store.
\<close>

theorem selection_is_not_validated:
  "userSelectedModelStore (fst (handleModelSelection c N env st)) (from_id c) = Some N
   \<and> (N \<notin> name ` set (stored_models st (from_id c)) \<longrightarrow>
        viewModelDetails c N denv st =
          (st\<lparr>outbox := outbox st @ [AnswerCbQuery (Some (emoji_cross @ '' Model not found'')) False]\<rparr>,
           details_answer denv))"
proof -
  have "userSelectedModelStore (fst (handleModelSelection c N env st)) (from_id c) = Some N"
    by (simp add: handleModelSelection_def emit_def Let_def split: settled.splits option.splits)
  moreover have "viewModelDetails c N denv st =
          (st\<lparr>outbox := outbox st @ [AnswerCbQuery (Some (emoji_cross @ '' Model not found'')) False]\<rparr>,
           details_answer denv)"
    if "N \<notin> name ` set (stored_models st (from_id c))"
    using find_absent [OF that] by (simp add: viewModelDetails_def emit_def)
  ultimately show ?thesis by blast
qed

theorem selection_is_not_validated_witness:
  "''Nope'' \<notin> name ` set (stored_models stocked_bot (from_id bob))
   \<and> stored_models initial_bot (from_id alice) = []
   \<and> userSelectedModelStore (fst (handleModelSelection bob ''Nope'' clean_selection stocked_bot)) 8 = Some ''Nope''
   \<and> userSelectedModelStore (fst (handleModelSelection alice ''Nope'' clean_selection initial_bot)) 7 = Some ''Nope''
   \<and> viewModelDetails bob ''Nope'' clean_details stocked_bot =
       (stocked_bot\<lparr>outbox := [AnswerCbQuery (Some (emoji_cross @ '' Model not found'')) False]\<rparr>, Fulfilled ())"
proof -
  have a: "''Nope'' \<notin> name ` set (stored_models stocked_bot (from_id bob))"
    by (simp add: stored_models_def stocked_bot_def initial_bot_def bob_def model_a_def model_b_def)
  have b: "stored_models initial_bot (from_id alice) = []"
    by (simp add: stored_models_def initial_bot_def)
  have o: "outbox stocked_bot = []" and d: "details_answer clean_details = Fulfilled ()"
    and i: "from_id bob = 8" "from_id alice = 7"
    by (simp_all add: stocked_bot_def initial_bot_def clean_details_def bob_def alice_def)
  note for_bob = selection_is_not_validated
    [where c = bob and N = "''Nope''" and env = clean_selection and st = stocked_bot
       and denv = clean_details]
  note for_alice = selection_is_not_validated
    [where c = alice and N = "''Nope''" and env = clean_selection and st = initial_bot]
  show ?thesis
    using for_bob for_alice a b o d i by simp
qed

text \<open>
  C5 (as stated, refuted): the menu message no longer exists, so its deletion fails; the
  selection is recorded and the failure is swallowed, but the user's message is never
  asked to be deleted and the pair stays in the store.
\<close>

theorem failed_deletion_keeps_pair_counterexample:
  "messageStore (fst (handleModelSelection bob ''B'' menu_gone_selection menu_open_bot)) 80
     = Some \<lparr>userMessageId = 600, botMessageId = 601\<rparr>
   \<and> DeleteMessage 80 600 \<notin> set (outbox (fst (handleModelSelection bob ''B'' menu_gone_selection menu_open_bot)))
   \<and> userSelectedModelStore (fst (handleModelSelection bob ''B'' menu_gone_selection menu_open_bot)) 8
       = Some ''B''
   \<and> snd (handleModelSelection bob ''B'' menu_gone_selection menu_open_bot) = Fulfilled ()"
  by (simp add: handleModelSelection_def menu_gone_selection_def clean_selection_def
        menu_open_bot_def stocked_bot_def initial_bot_def bob_def emit_def)

text \<open>
  C5 (amended): every Select records the name as the user's selection and first asks
  for the confirmation alert. When that call succeeds the handler does not fail. With a
  pair stored for the chat it then asks for the deletion of the bot's message and, only
  if that succeeded, of the user's message; only if both succeeded is the pair removed
  from the store. A deletion that fails is logged and swallowed, and it ends the clean-up:
  what was to follow is not tried and the pair stays in the store.
\<close>

theorem selection_cleanup:
  "userSelectedModelStore (fst (handleModelSelection c N env st))
     = (userSelectedModelStore st)(from_id c \<mapsto> N)
   \<and> (\<exists>rest. outbox (fst (handleModelSelection c N env st)) =
         outbox st @ AnswerCbQuery (Some (emoji_check @ '' '' @ N @ '' has been selected!'')) True # rest)
   \<and> (alert_settles env = Fulfilled () \<longrightarrow> snd (handleModelSelection c N env st) = Fulfilled ())
   \<and> (alert_settles env = Fulfilled () \<and> messageStore st (chat c) = Some pair \<longrightarrow>
        (delete_bot_settles env = Fulfilled () \<and> delete_user_settles env = Fulfilled () \<longrightarrow>
           messageStore (fst (handleModelSelection c N env st)) = (messageStore st)(chat c := None)
           \<and> outbox (fst (handleModelSelection c N env st)) =
               outbox st @ [AnswerCbQuery (Some (emoji_check @ '' '' @ N @ '' has been selected!'')) True,
                            DeleteMessage (chat c) (botMessageId pair),
                            DeleteMessage (chat c) (userMessageId pair)])
        \<and> (delete_bot_settles env \<noteq> Fulfilled () \<longrightarrow>
           messageStore (fst (handleModelSelection c N env st)) = messageStore st
           \<and> outbox (fst (handleModelSelection c N env st)) =
               outbox st @ [AnswerCbQuery (Some (emoji_check @ '' '' @ N @ '' has been selected!'')) True,
                            DeleteMessage (chat c) (botMessageId pair),
                            ConsoleError ''Error deleting messages:''])
        \<and> (delete_bot_settles env = Fulfilled () \<and> delete_user_settles env \<noteq> Fulfilled () \<longrightarrow>
           messageStore (fst (handleModelSelection c N env st)) = messageStore st
           \<and> outbox (fst (handleModelSelection c N env st)) =
               outbox st @ [AnswerCbQuery (Some (emoji_check @ '' '' @ N @ '' has been selected!'')) True,
                            DeleteMessage (chat c) (botMessageId pair),
                            DeleteMessage (chat c) (userMessageId pair),
                            ConsoleError ''Error deleting messages:'']))"
  by (simp add: handleModelSelection_def emit_def Let_def split: settled.splits option.splits)


theorem selection_cleanup_witness:
  "alert_settles clean_selection = Fulfilled ()
   \<and> messageStore menu_open_bot (chat bob) = Some \<lparr>userMessageId = 600, botMessageId = 601\<rparr>
   \<and> userSelectedModelStore (fst (handleModelSelection bob ''GPT-Model-X'' clean_selection menu_open_bot)) 8
       = Some ''GPT-Model-X''
   \<and> snd (handleModelSelection bob ''GPT-Model-X'' clean_selection menu_open_bot) = Fulfilled ()
   \<and> messageStore (fst (handleModelSelection bob ''GPT-Model-X'' clean_selection menu_open_bot)) 80 = None
   \<and> outbox (fst (handleModelSelection bob ''GPT-Model-X'' clean_selection menu_open_bot))
       = [selected_alert ''GPT-Model-X'', DeleteMessage 80 601, DeleteMessage 80 600]
   \<and> delete_bot_settles menu_gone_selection \<noteq> Fulfilled ()
   \<and> messageStore (fst (handleModelSelection bob ''GPT-Model-X'' menu_gone_selection menu_open_bot)) 80
       = Some \<lparr>userMessageId = 600, botMessageId = 601\<rparr>
   \<and> outbox (fst (handleModelSelection bob ''GPT-Model-X'' menu_gone_selection menu_open_bot))
       = [selected_alert ''GPT-Model-X'', DeleteMessage 80 601, ConsoleError ''Error deleting messages:'']
   \<and> delete_user_settles user_message_gone_selection \<noteq> Fulfilled ()
   \<and> messageStore (fst (handleModelSelection bob ''GPT-Model-X'' user_message_gone_selection menu_open_bot)) 80
       = Some \<lparr>userMessageId = 600, botMessageId = 601\<rparr>
   \<and> outbox (fst (handleModelSelection bob ''GPT-Model-X'' user_message_gone_selection menu_open_bot))
       = [selected_alert ''GPT-Model-X'', DeleteMessage 80 601, DeleteMessage 80 600,
          ConsoleError ''Error deleting messages:'']"
proof -
  let ?pair = "\<lparr>userMessageId = 600, botMessageId = 601\<rparr>"
  have env: "alert_settles clean_selection = Fulfilled ()"
    "delete_bot_settles clean_selection = Fulfilled ()"
    "delete_user_settles clean_selection = Fulfilled ()"
    "alert_settles menu_gone_selection = Fulfilled ()"
    "delete_bot_settles menu_gone_selection \<noteq> Fulfilled ()"
    "alert_settles user_message_gone_selection = Fulfilled ()"
    "delete_bot_settles user_message_gone_selection = Fulfilled ()"
    "delete_user_settles user_message_gone_selection \<noteq> Fulfilled ()"
    by (simp_all add: clean_selection_def menu_gone_selection_def user_message_gone_selection_def)
  have st: "messageStore menu_open_bot (chat bob) = Some ?pair" "outbox menu_open_bot = []"
    "messageStore menu_open_bot = [80 \<mapsto> ?pair]" "chat bob = 80" "from_id bob = 8"
    by (simp_all add: menu_open_bot_def stocked_bot_def initial_bot_def bob_def)
  note clean = selection_cleanup
    [where c = bob and N = "''GPT-Model-X''" and env = clean_selection and st = menu_open_bot
       and pair = ?pair]
  note menu_gone = selection_cleanup
    [where c = bob and N = "''GPT-Model-X''" and env = menu_gone_selection and st = menu_open_bot
       and pair = ?pair]
  note user_gone = selection_cleanup
    [where c = bob and N = "''GPT-Model-X''" and env = user_message_gone_selection
       and st = menu_open_bot and pair = ?pair]
  show ?thesis
    using clean menu_gone user_gone env st by (simp add: selected_alert_def)
qed

text \<open>
  C8 (as stated, refuted): the entry's beta label is present (the badge element exists,
  its text is empty); its row is labelled with the bare name and its detail view shows
  no marker.
\<close>

theorem blank_beta_label_counterexample:
  "extract_item blank_badge_item = blank_beta
   \<and> isBeta blank_beta \<noteq> None
   \<and> modelButtons [blank_beta] = [[CallbackButton ''A'' ''view_model_A''], [close_button]]
   \<and> details_text blank_beta = emoji_robot @ '' *A*'' @ newline @ newline"
  by (simp add: blank_badge_item_def extract_item_def trim_def is_white_space_def blank_beta_def
        modelButtons_def button_text_def details_text_def)

text \<open>
  C8 (amended): the list view of a stored non-empty catalog is one row per entry, in
  the catalog's order, then the close row; a row is labelled with the entry's name,
  followed by the beta label in square brackets when that label is present and not
  empty, and carries the name as its callback. Choosing a row whose entry is the first
  of its name edits the menu message into the detail view of that entry: name, the
  same marker, and the features in order, one line each.
\<close>

theorem menu_round_trip:
  "length (modelButtons ms) = Suc (length ms)
   \<and> (\<forall>i<length ms. modelButtons ms ! i =
        [CallbackButton
           (name (ms ! i) @ (case isBeta (ms ! i) of
                               Some b \<Rightarrow> (if b = [] then [] else '' ['' @ b @ '']'')
                             | None \<Rightarrow> []))
           (''view_model_'' @ name (ms ! i))])
   \<and> modelButtons ms ! length ms = [close_button]
   \<and> (load_success r \<and> stored_models st (from_id c) = ms \<and> ms \<noteq> [] \<longrightarrow>
        outbox (fst (showModelMenu_resume c r menu_reply st)) =
          outbox st @ [SendMessage (chat c) (emoji_robot @ '' Available Models:'')
                         (InlineKeyboard (modelButtons ms))])
   \<and> (i < length ms \<and> stored_models st (from_id c) = ms
        \<and> (\<forall>j<i. name (ms ! j) \<noteq> name (ms ! i)) \<longrightarrow>
        (\<exists>rest. outbox (fst (viewModelDetails c (name (ms ! i)) denv st)) =
           outbox st @ EditMessageText (chat c) (ctx_message_id c) (details_text (ms ! i)) True
                         (details_keyboard (ms ! i)) # rest))
   \<and> details_text e =
       emoji_robot @ '' *'' @ name e @ ''*''
       @ (case isBeta e of Some b \<Rightarrow> (if b = [] then [] else '' ['' @ b @ '']'') | None \<Rightarrow> [])
       @ newline @ newline
       @ (if features e = [] then []
          else ''*Features:*'' @ newline
               @ concat (map (\<lambda>f. feature_emoji f @ '' '' @ f @ newline) (features e)))"
proof -
  have rows: "\<forall>i<length ms. modelButtons ms ! i =
        [CallbackButton
           (name (ms ! i) @ (case isBeta (ms ! i) of
                               Some b \<Rightarrow> (if b = [] then [] else '' ['' @ b @ '']'')
                             | None \<Rightarrow> []))
           (''view_model_'' @ name (ms ! i))]"
    by (simp add: modelButtons_def nth_append button_text_def split: option.splits)
  have close: "modelButtons ms ! length ms = [close_button]"
    by (simp add: modelButtons_def nth_append)
  have list_view: "outbox (fst (showModelMenu_resume c r menu_reply st)) =
          outbox st @ [SendMessage (chat c) (emoji_robot @ '' Available Models:'')
                         (InlineKeyboard (modelButtons ms))]"
    if "load_success r" and "stored_models st (from_id c) = ms" and "ms \<noteq> []"
    using that by (simp add: showModelMenu_resume_def emit_def Let_def split: settled.splits)
  have detail_view: "\<exists>rest. outbox (fst (viewModelDetails c (name (ms ! i)) denv st)) =
           outbox st @ EditMessageText (chat c) (ctx_message_id c) (details_text (ms ! i)) True
                         (details_keyboard (ms ! i)) # rest"
    if "i < length ms" and "stored_models st (from_id c) = ms"
      and "\<forall>j<i. name (ms ! j) \<noteq> name (ms ! i)"
    using find_first [OF that(1) that(3)] that(2)
    by (simp add: viewModelDetails_def details_catch_def emit_def Let_def split: settled.splits)
  have shown: "details_text e =
       emoji_robot @ '' *'' @ name e @ ''*''
       @ (case isBeta e of Some b \<Rightarrow> (if b = [] then [] else '' ['' @ b @ '']'') | None \<Rightarrow> [])
       @ newline @ newline
       @ (if features e = [] then []
          else ''*Features:*'' @ newline
               @ concat (map (\<lambda>f. feature_emoji f @ '' '' @ f @ newline) (features e)))"
  proof -
    have "feature_line = (\<lambda>f. feature_emoji f @ '' '' @ f @ newline)"
      by (rule ext) (simp add: feature_line_def)
    then show ?thesis
      by (simp add: details_text_def split: option.splits)
  qed
  have len: "length (modelButtons ms) = Suc (length ms)"
    by (simp add: modelButtons_def)
  from len rows close list_view detail_view shown show ?thesis
    by blast
qed


lemma plain_feature_emoji:
  "feature_emoji ''x'' = ''  '' @ [CHR 0xE2, CHR 0x80, CHR 0xA2]"
  "feature_emoji ''y'' = ''  '' @ [CHR 0xE2, CHR 0x80, CHR 0xA2]"
  by (simp_all add: feature_emoji_def)

theorem menu_round_trip_witness:
  "load_success AlreadyLoaded
   \<and> stored_models stocked_bot (from_id bob) = [model_a, model_b]
   \<and> modelButtons [model_a, model_b] ! 0 = [CallbackButton ''A'' ''view_model_A'']
   \<and> modelButtons [model_a, model_b] ! 1 = [CallbackButton ''B [Beta]'' ''view_model_B'']
   \<and> modelButtons [model_a, model_b] ! 2 = [close_button]
   \<and> length (modelButtons [model_a, model_b]) = 3
   \<and> outbox (fst (showModelMenu_resume bob AlreadyLoaded (Fulfilled 601) stocked_bot)) =
       [SendMessage 80 (emoji_robot @ '' Available Models:'')
          (InlineKeyboard (modelButtons [model_a, model_b]))]
   \<and> (\<exists>rest. outbox (fst (viewModelDetails bob ''B'' clean_details stocked_bot)) =
         EditMessageText 80 600 (details_text model_b) True (details_keyboard model_b) # rest)
   \<and> details_text model_b =
       emoji_robot @ '' *B* [Beta]'' @ newline @ newline @ ''*Features:*'' @ newline
       @ ''  '' @ [CHR 0xE2, CHR 0x80, CHR 0xA2] @ '' x'' @ newline
       @ ''  '' @ [CHR 0xE2, CHR 0x80, CHR 0xA2] @ '' y'' @ newline"
proof -
  let ?ms = "[model_a, model_b]"
  note t = menu_round_trip
    [where ms = ?ms and r = AlreadyLoaded and st = stocked_bot and c = bob and i = 1
       and menu_reply = "Fulfilled 601" and denv = clean_details and e = model_b]
  have ok: "load_success AlreadyLoaded"
    by (simp add: load_success_def)
  have stored: "stored_models stocked_bot (from_id bob) = ?ms"
    by (simp add: stored_models_def stocked_bot_def initial_bot_def bob_def)
  have first: "\<forall>j<1. name (?ms ! j) \<noteq> name (?ms ! 1)"
    by (simp add: model_a_def model_b_def)
  have ids: "chat bob = 80" "ctx_message_id bob = 600" "outbox stocked_bot = []"
    by (simp_all add: bob_def stocked_bot_def initial_bot_def)
  have b: "name model_b = ''B''" "isBeta model_b = Some ''Beta''" "features model_b = [''x'', ''y'']"
    and a: "name model_a = ''A''" "isBeta model_a = None"
    by (simp_all add: model_a_def model_b_def)
  have rows: "\<forall>i<length ?ms. modelButtons ?ms ! i =
        [CallbackButton
           (name (?ms ! i) @ (case isBeta (?ms ! i) of
                               Some b \<Rightarrow> (if b = [] then [] else '' ['' @ b @ '']'')
                             | None \<Rightarrow> []))
           (''view_model_'' @ name (?ms ! i))]"
    by (rule t [THEN conjunct2, THEN conjunct1])
  have close: "modelButtons ?ms ! length ?ms = [close_button]"
    by (rule t [THEN conjunct2, THEN conjunct2, THEN conjunct1])
  have len': "length (modelButtons ?ms) = Suc (length ?ms)"
    by (rule t [THEN conjunct1])
  have row0: "modelButtons ?ms ! 0 = [CallbackButton ''A'' ''view_model_A'']"
    using rows [rule_format, of 0] a by simp
  have row1: "modelButtons ?ms ! 1 = [CallbackButton ''B [Beta]'' ''view_model_B'']"
    using rows [rule_format, of 1] b by simp
  have row2: "modelButtons ?ms ! 2 = [close_button]" and len: "length (modelButtons ?ms) = 3"
    using close len' by (simp_all add: numeral_2_eq_2)
  have list_view: "outbox (fst (showModelMenu_resume bob AlreadyLoaded (Fulfilled 601) stocked_bot)) =
       [SendMessage 80 (emoji_robot @ '' Available Models:'') (InlineKeyboard (modelButtons ?ms))]"
  proof -
    have "outbox (fst (showModelMenu_resume bob AlreadyLoaded (Fulfilled 601) stocked_bot)) =
          outbox stocked_bot @ [SendMessage (chat bob) (emoji_robot @ '' Available Models:'')
                         (InlineKeyboard (modelButtons ?ms))]"
      using t [THEN conjunct2, THEN conjunct2, THEN conjunct2, THEN conjunct1] ok stored
      by simp
    then show ?thesis using ids by simp
  qed
  have "\<exists>rest. outbox (fst (viewModelDetails bob (name (?ms ! 1)) clean_details stocked_bot)) =
           outbox stocked_bot @ EditMessageText (chat bob) (ctx_message_id bob) (details_text (?ms ! 1)) True
                         (details_keyboard (?ms ! 1)) # rest"
    using t [THEN conjunct2, THEN conjunct2, THEN conjunct2, THEN conjunct2, THEN conjunct1]
      stored first
    by simp
  then have detail_view: "\<exists>rest. outbox (fst (viewModelDetails bob ''B'' clean_details stocked_bot)) =
         EditMessageText 80 600 (details_text model_b) True (details_keyboard model_b) # rest"
    using ids b by simp
  have shown: "details_text model_b =
       emoji_robot @ '' *B* [Beta]'' @ newline @ newline @ ''*Features:*'' @ newline
       @ ''  '' @ [CHR 0xE2, CHR 0x80, CHR 0xA2] @ '' x'' @ newline
       @ ''  '' @ [CHR 0xE2, CHR 0x80, CHR 0xA2] @ '' y'' @ newline"
  proof -
    have "details_text model_b =
       emoji_robot @ '' *'' @ name model_b @ ''*''
       @ (case isBeta model_b of Some b \<Rightarrow> (if b = [] then [] else '' ['' @ b @ '']'') | None \<Rightarrow> [])
       @ newline @ newline
       @ (if features model_b = [] then []
          else ''*Features:*'' @ newline
               @ concat (map (\<lambda>f. feature_emoji f @ '' '' @ f @ newline) (features model_b)))"
      by (rule t [THEN conjunct2, THEN conjunct2, THEN conjunct2, THEN conjunct2, THEN conjunct2])
    then show ?thesis
      using b by (simp add: plain_feature_emoji)
  qed
  from ok stored row0 row1 row2 len list_view detail_view shown show ?thesis
    by (intro conjI)
qed


end
